theory Spec2Isabelle
  imports Complex_Main "HOL-Library.Word" "HOL-Library.Signed_Division"
    "HOL-Library.Monad_Syntax"
begin

unbundle bit_operations_syntax

text \<open>
  A shallow embedding of the odysail telemetry code: the NMEA2000 byte readers and PGN
  decoders, the PGN registry, the statistics, the ring buffer with its latest-by-PGN
  index, the fusion mapper, the collector's worker loops, the sailing event detector and
  the Bayesian quality model; followed by the properties proved of them. A Go \<open>int\<close>
  is an unbounded integer (no value here comes near \<open>2^63\<close>), fixed-width values are
  machine words, and a run-time panic is the value \<open>None\<close>.
\<close>

section \<open>NMEA2000 byte readers (decoder.go)\<close>

type_synonym byte = "8 word"

text \<open>Go's \<open>len\<close> of a slice, as a Go \<open>int\<close>.\<close>

definition len :: "'a list \<Rightarrow> int" where
  "len xs = int (length xs)"

text \<open>
  \<open>binary.LittleEndian.UintN\<close> on a byte slice: the first byte is the least
  significant one.
\<close>

fun le_bytes :: "byte list \<Rightarrow> 'a::len word" where
  "le_bytes [] = 0"
| "le_bytes (b # bs) = ucast b OR push_bit 8 (le_bytes bs)"

text \<open>
  The slice expression \<open>data[lo:hi]\<close>: a run-time panic (here \<open>None\<close>) unless
  \<open>0 \<le> lo \<le> hi \<le> len data\<close>. (Go bounds \<open>hi\<close> by the capacity; every reader
  below slices only after its guard has established \<open>hi \<le> len data\<close>.)
\<close>

definition subslice :: "'a list \<Rightarrow> int \<Rightarrow> int \<Rightarrow> 'a list option" where
  "subslice data lo hi =
     (if 0 \<le> lo \<and> lo \<le> hi \<and> hi \<le> len data
      then Some (take (nat (hi - lo)) (drop (nat lo) data)) else None)"

text \<open>The index expression \<open>data[i]\<close>: a run-time panic unless \<open>0 \<le> i < len data\<close>.\<close>

definition elem :: "'a list \<Rightarrow> int \<Rightarrow> 'a option" where
  "elem data i = (if 0 \<le> i \<and> i < len data then Some (data ! nat i) else None)"

definition u8 :: "byte list \<Rightarrow> int \<Rightarrow> byte option" where
  "u8 data offset =
     (if offset \<ge> len data then Some 0xFF else elem data offset)"

definition u16le :: "byte list \<Rightarrow> int \<Rightarrow> 16 word option" where
  "u16le data offset =
     (if offset + 1 \<ge> len data then Some 0xFFFF
      else map_option le_bytes (subslice data offset (offset + 2)))"

definition u32le :: "byte list \<Rightarrow> int \<Rightarrow> 32 word option" where
  "u32le data offset =
     (if offset + 3 \<ge> len data then Some 0xFFFFFFFF
      else map_option le_bytes (subslice data offset (offset + 4)))"

definition i8 :: "byte list \<Rightarrow> int \<Rightarrow> byte option" where
  "i8 data offset =
     (if offset \<ge> len data then Some 0x7F else elem data offset)"

definition i16le :: "byte list \<Rightarrow> int \<Rightarrow> 16 word option" where
  "i16le data offset =
     (if offset + 1 \<ge> len data then Some 0x7FFF
      else map_option le_bytes (subslice data offset (offset + 2)))"

definition i32le :: "byte list \<Rightarrow> int \<Rightarrow> 32 word option" where
  "i32le data offset =
     (if offset + 3 \<ge> len data then Some 0x7FFFFFFF
      else map_option le_bytes (subslice data offset (offset + 4)))"

definition i64le :: "byte list \<Rightarrow> int \<Rightarrow> 64 word option" where
  "i64le data offset =
     (if offset + 7 \<ge> len data then Some 0x7FFFFFFFFFFFFFFF
      else map_option le_bytes (subslice data offset (offset + 8)))"

section \<open>PGN derivation (decoder.go)\<close>

definition PGNFromParts :: "byte \<Rightarrow> byte \<Rightarrow> byte \<Rightarrow> int" where
  "PGNFromParts dp pf ps =
     (let base = push_bit 16 (uint (dp AND 0x01)) OR push_bit 8 (uint (pf AND 0xFF))
      in if pf < 240 then base else base OR uint (ps AND 0xFF))"

section \<open>PGN decoders (decoder.go and its second part)\<close>

text \<open>
  Values of Go's \<open>interface{}\<close> that the field maps and the statistics snapshot hold.
  A \<open>float64\<close> is idealised as a real number (no rounding, no overflow, no NaN);
  a \<open>time.Time\<close> is the number of nanoseconds since the Unix epoch; a string
  produced by \<open>Time.Format\<close> is kept as its layout and the instant it renders.
\<close>

datatype dyn =
    U8 byte
  | I64 "64 word"
  | F64 real
  | Time int
  | TimeText string int

type_synonym fields = "string \<rightharpoonup> dyn"

text \<open>
  A decoder returns \<open>(map, error)\<close>: the map is \<open>nil\<close> (\<open>None\<close>) or a map, the
  error is \<open>nil\<close> (\<open>None\<close>) or a message. The outer \<open>option\<close> of
  \<open>DecoderFunc\<close> is \<open>None\<close> when the call panics.
\<close>

type_synonym decode_result = "fields option \<times> string option"

type_synonym DecoderFunc = "byte list \<Rightarrow> decode_result option"

text \<open>Conversions \<open>float64(x)\<close> of unsigned and signed integers, and \<open>int64(f)\<close>
  (also \<open>int(f)\<close>, \<open>time.Duration(f)\<close>) of a float, which truncates toward zero.\<close>

definition ufloat :: "'a::len word \<Rightarrow> real" where
  "ufloat w = real_of_int (uint w)"

definition sfloat :: "'a::len word \<Rightarrow> real" where
  "sfloat w = real_of_int (sint w)"

definition trunc :: "real \<Rightarrow> int" where
  "trunc x = (if 0 \<le> x then \<lfloor>x\<rfloor> else \<lceil>x\<rceil>)"

definition decodePGN127257 :: DecoderFunc where
  "decodePGN127257 data =
     (if len data < 7 then Some (None, None)
      else do {
        sid \<leftarrow> u8 data 0;
        yawRaw \<leftarrow> i16le data 1;
        pitchRaw \<leftarrow> i16le data 3;
        rollRaw \<leftarrow> i16le data 5;
        let result = Map.empty(''sid'' \<mapsto> U8 sid);
        let result =
          (if yawRaw \<noteq> 0x7FFF then
             (let yaw = sfloat yawRaw * 0.0001
              in result(''yaw_rad'' \<mapsto> F64 yaw, ''yaw_deg'' \<mapsto> F64 (yaw * 180 / pi)))
           else result);
        let result =
          (if pitchRaw \<noteq> 0x7FFF then
             (let pitch = sfloat pitchRaw * 0.0001
              in result(''pitch_rad'' \<mapsto> F64 pitch,
                        ''pitch_deg'' \<mapsto> F64 (pitch * 180 / pi)))
           else result);
        let result =
          (if rollRaw \<noteq> 0x7FFF then
             (let roll = sfloat rollRaw * 0.0001
              in result(''roll_rad'' \<mapsto> F64 roll,
                        ''roll_deg'' \<mapsto> F64 (roll * 180 / pi),
                        ''heel_angle'' \<mapsto> F64 (roll * 180 / pi)))
           else result);
        Some (Some result, None)
      })"

definition decodePGN130306 :: DecoderFunc where
  "decodePGN130306 data =
     (if len data < 6 then Some (None, None)
      else do {
        sid \<leftarrow> u8 data 0;
        wsRaw \<leftarrow> u16le data 1;
        waRaw \<leftarrow> u16le data 3;
        ref \<leftarrow> u8 data 5;
        let result = Map.empty(''sid'' \<mapsto> U8 sid, ''wind_reference'' \<mapsto> U8 ref);
        let result =
          (if wsRaw \<noteq> 0xFFFF then
             (let windSpeed = ufloat wsRaw * 0.01
              in result(''wind_speed_ms'' \<mapsto> F64 windSpeed,
                        ''wind_speed_kts'' \<mapsto> F64 (windSpeed * 1.94384)))
           else result);
        let result =
          (if waRaw \<noteq> 0xFFFF then
             (let windAngle = ufloat waRaw * 0.0001
              in result(''wind_angle_rad'' \<mapsto> F64 windAngle,
                        ''wind_angle_deg'' \<mapsto> F64 (windAngle * 180 / pi)))
           else result);
        Some (Some result, None)
      })"

definition decodePGN129026 :: DecoderFunc where
  "decodePGN129026 data =
     (if len data < 8 then Some (None, None)
      else do {
        sid \<leftarrow> u8 data 0;
        cogRaw \<leftarrow> u16le data 1;
        sogRaw \<leftarrow> u16le data 3;
        let result = Map.empty(''sid'' \<mapsto> U8 sid);
        let result =
          (if cogRaw \<noteq> 0xFFFF then
             (let cog = ufloat cogRaw * 0.0001
              in result(''cog_rad'' \<mapsto> F64 cog, ''cog_deg'' \<mapsto> F64 (cog * 180 / pi)))
           else result);
        let result =
          (if sogRaw \<noteq> 0xFFFF then
             (let sog = ufloat sogRaw * 0.01
              in result(''sog_ms'' \<mapsto> F64 sog, ''sog_kts'' \<mapsto> F64 (sog * 1.94384)))
           else result);
        Some (Some result, None)
      })"

definition decodePGN127250 :: DecoderFunc where
  "decodePGN127250 data =
     (if len data < 8 then Some (None, None)
      else do {
        sid \<leftarrow> u8 data 0;
        headingRaw \<leftarrow> u16le data 1;
        deviationRaw \<leftarrow> i16le data 3;
        variationRaw \<leftarrow> i16le data 5;
        ref \<leftarrow> u8 data 7;
        let result = Map.empty(''sid'' \<mapsto> U8 sid, ''heading_reference'' \<mapsto> U8 ref);
        let result =
          (if headingRaw \<noteq> 0xFFFF then
             (let heading = ufloat headingRaw * 0.0001
              in result(''heading_rad'' \<mapsto> F64 heading,
                        ''heading_deg'' \<mapsto> F64 (heading * 180 / pi)))
           else result);
        let result =
          (if deviationRaw \<noteq> 0x7FFF then
             (let deviation = sfloat deviationRaw * 0.0001
              in result(''deviation_rad'' \<mapsto> F64 deviation,
                        ''deviation_deg'' \<mapsto> F64 (deviation * 180 / pi)))
           else result);
        let result =
          (if variationRaw \<noteq> 0x7FFF then
             (let variation = sfloat variationRaw * 0.0001
              in result(''variation_rad'' \<mapsto> F64 variation,
                        ''variation_deg'' \<mapsto> F64 (variation * 180 / pi)))
           else result);
        Some (Some result, None)
      })"

definition decodePGN127251 :: DecoderFunc where
  "decodePGN127251 data =
     (if len data \<ge> 8 then do {
        sid \<leftarrow> u8 data 0;
        rotRaw \<leftarrow> i32le data 1;
        let result = Map.empty(''sid'' \<mapsto> U8 sid);
        let result =
          (if rotRaw \<noteq> 0x7FFFFFFF then
             (let rot = sfloat rotRaw * (3.125 / 10 ^ 8)
              in result(''rate_of_turn_rad_s'' \<mapsto> F64 rot,
                        ''rate_of_turn_deg_s'' \<mapsto> F64 (rot * 180 / pi)))
           else result);
        Some (Some result, None)
      }
      else if len data \<ge> 3 then do {
        sid \<leftarrow> u8 data 0;
        rotRaw \<leftarrow> i16le data 1;
        let result = Map.empty(''sid'' \<mapsto> U8 sid);
        let result =
          (if rotRaw \<noteq> 0x7FFF then
             (let rot = sfloat rotRaw * 0.0001
              in result(''rate_of_turn_rad_s'' \<mapsto> F64 rot,
                        ''rate_of_turn_deg_s'' \<mapsto> F64 (rot * 180 / pi)))
           else result);
        Some (Some result, None)
      }
      else Some (None, None))"

definition decodePGN129025 :: DecoderFunc where
  "decodePGN129025 data =
     (if len data < 8 then Some (None, None)
      else do {
        latRaw \<leftarrow> u32le data 0;
        lonRaw \<leftarrow> u32le data 4;
        let result = Map.empty;
        let result =
          (if latRaw \<noteq> 0xFFFFFFFF then
             result(''latitude'' \<mapsto> F64 ((ufloat latRaw - 0x80000000) * (1 / 10 ^ 7)))
           else result);
        let result =
          (if lonRaw \<noteq> 0xFFFFFFFF then
             result(''longitude'' \<mapsto> F64 ((ufloat lonRaw - 0x80000000) * (1 / 10 ^ 7)))
           else result);
        Some (Some result, None)
      })"

definition decodePGN128267 :: DecoderFunc where
  "decodePGN128267 data =
     (if len data < 5 then Some (None, None)
      else do {
        sid \<leftarrow> u8 data 0;
        depthRaw \<leftarrow> u32le data 1;
        let result = Map.empty(''sid'' \<mapsto> U8 sid);
        let result =
          (if depthRaw \<noteq> 0xFFFFFFFF then
             result(''depth_m'' \<mapsto> F64 (ufloat depthRaw * 0.01))
           else result);
        Some (Some result, None)
      })"

definition decodePGN128259 :: DecoderFunc where
  "decodePGN128259 data =
     (if len data < 7 then Some (None, None)
      else do {
        sid \<leftarrow> u8 data 0;
        waterRaw \<leftarrow> u16le data 1;
        groundRaw \<leftarrow> u16le data 3;
        let result = Map.empty(''sid'' \<mapsto> U8 sid);
        let result =
          (if waterRaw \<noteq> 0xFFFF then
             (let ws = ufloat waterRaw * 0.01
              in result(''water_speed_ms'' \<mapsto> F64 ws,
                        ''water_speed_kts'' \<mapsto> F64 (ws * 1.94384)))
           else result);
        let result =
          (if groundRaw \<noteq> 0xFFFF then
             (let gs = ufloat groundRaw * 0.01
              in result(''ground_speed_ms'' \<mapsto> F64 gs,
                        ''ground_speed_kts'' \<mapsto> F64 (gs * 1.94384)))
           else result);
        Some (Some result, None)
      })"

definition decodePGN128275 :: DecoderFunc where
  "decodePGN128275 data =
     (if len data < 8 then Some (None, None)
      else do {
        logRaw \<leftarrow> u32le data 0;
        tripRaw \<leftarrow> u32le data 4;
        let result = Map.empty;
        let result =
          (if logRaw \<noteq> 0xFFFFFFFF then
             result(''log_distance_m'' \<mapsto> F64 (ufloat logRaw * 185.2))
           else result);
        let result =
          (if tripRaw \<noteq> 0xFFFFFFFF then
             result(''trip_distance_m'' \<mapsto> F64 (ufloat tripRaw * 185.2))
           else result);
        Some (Some result, None)
      })"

text \<open>
  Go's time library, as far as the decoders use it: \<open>time.Second\<close> in nanoseconds,
  the layout \<open>time.RFC3339\<close>, and the seconds from the Unix epoch back to
  \<open>time.Date(0, 1, 1, 0, 0, 0, 0, time.UTC)\<close>.
\<close>

definition Second :: int where
  "Second = 1000000000"

definition RFC3339 :: string where
  "RFC3339 = ''2006-01-02T15:04:05Z07:00''"

definition year0 :: int where
  "year0 = - 62167219200"

definition decodePGN129029 :: DecoderFunc where
  "decodePGN129029 data =
     (if len data < 43 then Some (None, None)
      else do {
        sid \<leftarrow> u8 data 0;
        dateDays \<leftarrow> u16le data 1;
        timeRaw \<leftarrow> u32le data 3;
        latRaw \<leftarrow> i64le data 7;
        lonRaw \<leftarrow> i64le data 15;
        altRaw \<leftarrow> i64le data 23;
        pack1 \<leftarrow> u8 data 31;
        let gnssType = pack1 AND 0x0F;
        let method = drop_bit 4 pack1 AND 0x0F;
        pack2 \<leftarrow> u8 data 32;
        let integrity = pack2 AND 3;
        svs \<leftarrow> u8 data 33;
        hdopRaw \<leftarrow> i16le data 34;
        pdopRaw \<leftarrow> i16le data 36;
        geoidRaw \<leftarrow> i32le data 38;
        refStations \<leftarrow> u8 data 42;
        let result = Map.empty(''sid'' \<mapsto> U8 sid);
        let result =
          (if dateDays \<noteq> 0xFFFF \<and> timeRaw \<noteq> 0xFFFFFFFF then
             (let midnight = uint dateDays * 86400 * Second;
                  fixTime = midnight + trunc (ufloat timeRaw * 0.0001) * Second
              in result(''fix_time_utc'' \<mapsto> TimeText RFC3339 fixTime))
           else result);
        let result =
          (if latRaw \<noteq> 0x7FFFFFFFFFFFFFFF then
             result(''latitude'' \<mapsto> F64 (sfloat latRaw * (1 / 10 ^ 16)))
           else result);
        let result =
          (if lonRaw \<noteq> 0x7FFFFFFFFFFFFFFF then
             result(''longitude'' \<mapsto> F64 (sfloat lonRaw * (1 / 10 ^ 16)))
           else result);
        let result =
          (if altRaw \<noteq> 0x7FFFFFFFFFFFFFFF then
             result(''altitude_m'' \<mapsto> F64 (sfloat altRaw * (1 / 10 ^ 6)))
           else result);
        let result = result(''gnss_type'' \<mapsto> U8 gnssType, ''method'' \<mapsto> U8 method,
                            ''integrity'' \<mapsto> U8 integrity, ''satellites'' \<mapsto> U8 svs);
        let result =
          (if hdopRaw \<noteq> 0x7FFF then result(''hdop'' \<mapsto> F64 (sfloat hdopRaw * 0.01))
           else result);
        let result =
          (if pdopRaw \<noteq> 0x7FFF then result(''pdop'' \<mapsto> F64 (sfloat pdopRaw * 0.01))
           else result);
        let result =
          (if geoidRaw \<noteq> 0x7FFFFFFF then
             result(''geoidal_separation_m'' \<mapsto> F64 (sfloat geoidRaw * 0.01))
           else result);
        let result = result(''reference_stations'' \<mapsto> U8 refStations);
        Some (Some result, None)
      })"

definition decodePGN127245 :: DecoderFunc where
  "decodePGN127245 data =
     (if len data < 6 then Some (None, None)
      else do {
        instance \<leftarrow> u8 data 0;
        directionOrder \<leftarrow> u8 data 1;
        angleOrderRaw \<leftarrow> i16le data 2;
        positionRaw \<leftarrow> i16le data 4;
        let result = Map.empty(''rudder_instance'' \<mapsto> U8 instance,
                               ''direction_order'' \<mapsto> U8 directionOrder);
        let result =
          (if angleOrderRaw \<noteq> 0x7FFF then
             (let angle = sfloat angleOrderRaw * 0.0001
              in result(''rudder_angle_order_rad'' \<mapsto> F64 angle,
                        ''rudder_angle_order_deg'' \<mapsto> F64 (angle * 180 / pi)))
           else result);
        let result =
          (if positionRaw \<noteq> 0x7FFF then
             (let pos = sfloat positionRaw * 0.0001
              in result(''rudder_position_rad'' \<mapsto> F64 pos,
                        ''rudder_position_deg'' \<mapsto> F64 (pos * 180 / pi)))
           else result);
        Some (Some result, None)
      })"

definition decodePGN127237 :: DecoderFunc where
  "decodePGN127237 data =
     (if len data < 8 then Some (None, None)
      else do {
        b0 \<leftarrow> u8 data 0;
        b1 \<leftarrow> u8 data 1;
        b2 \<leftarrow> u8 data 2;
        let result = Map.empty(
              ''rudder_limit_exceeded'' \<mapsto> U8 (drop_bit 6 b0 AND 3),
              ''off_heading_exceeded'' \<mapsto> U8 (drop_bit 4 b0 AND 3),
              ''off_track_exceeded'' \<mapsto> U8 (drop_bit 2 b0 AND 3),
              ''override'' \<mapsto> U8 (b0 AND 3),
              ''steering_mode'' \<mapsto> U8 (drop_bit 5 b1 AND 7),
              ''turn_mode'' \<mapsto> U8 (drop_bit 2 b1 AND 7),
              ''heading_reference'' \<mapsto> U8 ((b1 AND 3) OR push_bit 2 (drop_bit 7 b2 AND 1)),
              ''commanded_rudder_direction'' \<mapsto> U8 (b2 AND 7));
        let offset = 3;
        cmdRudderAngleRaw \<leftarrow> i16le data offset;
        let offset = offset + 2;
        headingToSteerRaw \<leftarrow> u16le data offset;
        let offset = offset + 2;
        trackRaw \<leftarrow> u16le data offset;
        let result =
          (if cmdRudderAngleRaw \<noteq> 0x7FFF then
             result(''commanded_rudder_angle_rad'' \<mapsto> F64 (sfloat cmdRudderAngleRaw * 0.0001))
           else result);
        let result =
          (if headingToSteerRaw \<noteq> 0xFFFF then
             result(''heading_to_steer_rad'' \<mapsto> F64 (ufloat headingToSteerRaw * 0.0001))
           else result);
        let result =
          (if trackRaw \<noteq> 0xFFFF then
             result(''track_rad'' \<mapsto> F64 (ufloat trackRaw * 0.0001))
           else result);
        Some (Some result, None)
      })"

definition decodePGN129284 :: DecoderFunc where
  "decodePGN129284 data =
     (if len data < 8 then Some (None, None)
      else do {
        let offset = 0;
        sid \<leftarrow> u8 data offset;
        let offset = offset + 1;
        distCm \<leftarrow> u32le data offset;
        let offset = offset + 4;
        flags \<leftarrow> u8 data offset;
        let offset = offset + 1;
        let result = Map.empty(''sid'' \<mapsto> U8 sid);
        let result =
          (if distCm \<noteq> 0xFFFFFFFF then
             result(''distance_to_waypoint_m'' \<mapsto> F64 (ufloat distCm / 100))
           else result);
        let result = result(
              ''bearing_reference'' \<mapsto> U8 (drop_bit 6 flags AND 3),
              ''perpendicular_crossed'' \<mapsto> U8 (drop_bit 4 flags AND 3),
              ''arrival_circle_entered'' \<mapsto> U8 (drop_bit 2 flags AND 3),
              ''calculation_type'' \<mapsto> U8 (flags AND 3));
        (if offset + 4 \<le> len data then do {
           etaTimeRaw \<leftarrow> u32le data offset;
           let offset = offset + 4;
           etaDateRaw \<leftarrow> u16le data offset;
           let result =
             (if etaDateRaw \<noteq> 0xFFFF \<and> etaTimeRaw \<noteq> 0xFFFFFFFF then
                (let midnight = uint etaDateRaw * 86400 * Second;
                     eta = midnight + trunc (ufloat etaTimeRaw * 0.0001) * Second
                 in result(''eta_utc'' \<mapsto> TimeText RFC3339 eta))
              else result);
           Some (Some result, None)
         }
         else Some (Some result, None))
      })"

text \<open>
  \<open>string(rune(r))\<close> is the UTF-8 encoding of the code point \<open>r\<close>; written out for
  \<open>0 \<le> r < 0x800\<close> (one or two bytes), which covers \<open>'0' + index\<close> for every
  satellite index up to 255.
\<close>

definition utf8 :: "int \<Rightarrow> string" where
  "utf8 r = (if r < 0x80 then [char_of r]
             else [char_of (0xC0 + r div 64), char_of (0x80 + r mod 64)])"

definition formatSatField :: "string \<Rightarrow> int \<Rightarrow> string" where
  "formatSatField field index = ''sv_'' @ utf8 (48 + index) @ ''_'' @ field"

text \<open>The body of the satellite loop of \<open>decodePGN129540\<close>, for satellite \<open>i\<close>
  whose record starts at \<open>offset\<close>.\<close>

definition sat_body :: "byte list \<Rightarrow> int \<Rightarrow> int \<Rightarrow> fields \<Rightarrow> fields option" where
  "sat_body data i offset result = do {
     prn \<leftarrow> u8 data offset;
     let offset = offset + 1;
     elevRaw \<leftarrow> i16le data offset;
     let offset = offset + 2;
     azimRaw \<leftarrow> u16le data offset;
     let offset = offset + 2;
     snrRaw \<leftarrow> i16le data offset;
     let offset = offset + 2;
     rngRaw \<leftarrow> u32le data offset;
     let offset = offset + 4;
     status \<leftarrow> u8 data offset;
     let result =
       (if prn \<noteq> 0xFF then result(formatSatField ''prn'' i \<mapsto> U8 prn) else result);
     let result =
       (if elevRaw \<noteq> 0x7FFF then
          result(formatSatField ''elevation_rad'' i \<mapsto> F64 (sfloat elevRaw * 0.0001))
        else result);
     let result =
       (if azimRaw \<noteq> 0xFFFF then
          result(formatSatField ''azimuth_rad'' i \<mapsto> F64 (ufloat azimRaw * 0.0001))
        else result);
     let result =
       (if snrRaw \<noteq> 0x7FFF then
          result(formatSatField ''snr_dbhz'' i \<mapsto> F64 (sfloat snrRaw * 0.1))
        else result);
     let result =
       (if rngRaw \<noteq> 0xFFFFFFFF then
          result(formatSatField ''range_residual_m'' i \<mapsto> F64 (ufloat rngRaw * 0.001))
        else result);
     Some (result(formatSatField ''status'' i \<mapsto> U8 (drop_bit 4 status AND 0x0F)))
   }"

text \<open>The loop \<open>for i := 1; i <= int(satsInView) && offset+9 <= len(data); i++\<close>;
  each pass advances \<open>offset\<close> by the twelve bytes its reads consume.\<close>

function sat_loop :: "byte list \<Rightarrow> int \<Rightarrow> int \<Rightarrow> int \<Rightarrow> fields \<Rightarrow> fields option" where
  "sat_loop data satsInView i offset result =
     (if i \<le> satsInView \<and> offset + 9 \<le> len data then
        (case sat_body data i offset result of
           None \<Rightarrow> None
         | Some result' \<Rightarrow> sat_loop data satsInView (i + 1) (offset + 12) result')
      else Some result)"
  by pat_completeness auto
termination
  by (relation "measure (\<lambda>(data, satsInView, i, offset, result). nat (satsInView + 1 - i))") auto

declare sat_loop.simps [simp del]

definition decodePGN129540 :: DecoderFunc where
  "decodePGN129540 data =
     (if len data < 3 then Some (None, None)
      else do {
        sid \<leftarrow> u8 data 0;
        hdr \<leftarrow> u8 data 1;
        satsInView \<leftarrow> u8 data 2;
        let result = Map.empty(''sid'' \<mapsto> U8 sid,
                               ''range_residual_mode'' \<mapsto> U8 (drop_bit 6 hdr AND 3),
                               ''sats_in_view'' \<mapsto> U8 satsInView);
        result \<leftarrow> sat_loop data (uint satsInView) 1 3 result;
        Some (Some result, None)
      })"

definition formatTime :: "int \<Rightarrow> int \<Rightarrow> real \<Rightarrow> dyn" where
  "formatTime h m s =
     TimeText ''15:04:05.000''
       ((year0 + h * 3600 + m * 60 + trunc s) * Second
        + trunc ((s - real_of_int (trunc s)) * 10 ^ 9))"

definition decodePGN126992 :: DecoderFunc where
  "decodePGN126992 data =
     (if len data < 8 then Some (None, None)
      else do {
        sid \<leftarrow> u8 data 0;
        timeSource \<leftarrow> u8 data 1;
        days \<leftarrow> u16le data 2;
        ms \<leftarrow> u32le data 4;
        let result = Map.empty(''sid'' \<mapsto> U8 sid, ''time_source'' \<mapsto> U8 timeSource);
        let result =
          (if days \<noteq> 0xFFFF then
             (let date = uint days * 86400 * Second
              in result(''date'' \<mapsto> TimeText ''2006-01-02'' date))
           else result);
        let result =
          (if ms \<noteq> 0xFFFFFFFF then
             (let seconds = ufloat ms * 0.0001;
                  hours = trunc (seconds / 3600);
                  minutes = trunc ((seconds - real_of_int (hours * 3600)) / 60);
                  secs = seconds - real_of_int (hours * 3600) - real_of_int (minutes * 60)
              in result(''time_of_day'' \<mapsto> formatTime hours minutes secs))
           else result);
        Some (Some result, None)
      })"

definition decodePGN127508 :: DecoderFunc where
  "decodePGN127508 data =
     (if len data < 8 then Some (None, None)
      else do {
        instance \<leftarrow> u8 data 0;
        voltageRaw \<leftarrow> u16le data 1;
        currentRaw \<leftarrow> i16le data 3;
        tempRaw \<leftarrow> u16le data 5;
        sid \<leftarrow> u8 data 7;
        let result = Map.empty(''battery_instance'' \<mapsto> U8 instance, ''sid'' \<mapsto> U8 sid);
        let result =
          (if voltageRaw \<noteq> 0xFFFF then
             result(''battery_voltage_v'' \<mapsto> F64 (ufloat voltageRaw * 0.01))
           else result);
        let result =
          (if currentRaw \<noteq> 0x7FFF then
             result(''battery_current_a'' \<mapsto> F64 (sfloat currentRaw * 0.1))
           else result);
        let result =
          (if tempRaw \<noteq> 0xFFFF then
             result(''battery_temperature_c'' \<mapsto> F64 (ufloat tempRaw * 0.01 - 273.15))
           else result);
        Some (Some result, None)
      })"

definition decodePGN127489 :: DecoderFunc where
  "decodePGN127489 data =
     (if len data < 8 then Some (None, None)
      else do {
        instance \<leftarrow> u8 data 0;
        oilPressureRaw \<leftarrow> u16le data 1;
        oilTempRaw \<leftarrow> u16le data 3;
        engineTempRaw \<leftarrow> u16le data 5;
        let result = Map.empty(''engine_instance'' \<mapsto> U8 instance);
        let result =
          (if oilPressureRaw \<noteq> 0xFFFF then
             result(''oil_pressure_pa'' \<mapsto> F64 (ufloat oilPressureRaw * 100))
           else result);
        let result =
          (if oilTempRaw \<noteq> 0xFFFF then
             result(''oil_temperature_c'' \<mapsto> F64 (ufloat oilTempRaw * 0.1 - 273.15))
           else result);
        let result =
          (if engineTempRaw \<noteq> 0xFFFF then
             result(''engine_temperature_c'' \<mapsto> F64 (ufloat engineTempRaw * 0.01 - 273.15))
           else result);
        (if len data \<ge> 9 then do {
           altVoltageRaw \<leftarrow> u16le data 7;
           let result =
             (if altVoltageRaw \<noteq> 0xFFFF then
                result(''alternator_voltage_v'' \<mapsto> F64 (ufloat altVoltageRaw * 0.01))
              else result);
           Some (Some result, None)
         }
         else Some (Some result, None))
      })"

definition decodePGN130310 :: DecoderFunc where
  "decodePGN130310 data =
     (if len data < 12 then Some (None, None)
      else do {
        sid \<leftarrow> u8 data 0;
        airTempRaw \<leftarrow> u16le data 4;
        waterTempRaw \<leftarrow> u16le data 6;
        humidityRaw \<leftarrow> u16le data 8;
        pressureRaw \<leftarrow> u16le data 10;
        let result = Map.empty(''sid'' \<mapsto> U8 sid);
        let result =
          (if airTempRaw \<noteq> 0xFFFF then
             result(''air_temperature_c'' \<mapsto> F64 (ufloat airTempRaw * 0.01 - 273.15))
           else result);
        let result =
          (if waterTempRaw \<noteq> 0xFFFF then
             result(''water_temperature_c'' \<mapsto> F64 (ufloat waterTempRaw * 0.01 - 273.15))
           else result);
        let result =
          (if humidityRaw \<noteq> 0xFFFF then
             result(''relative_humidity_pct'' \<mapsto> F64 (ufloat humidityRaw * 0.004))
           else result);
        let result =
          (if pressureRaw \<noteq> 0xFFFF then
             result(''atmospheric_pressure_hpa'' \<mapsto> F64 (ufloat pressureRaw * 0.1))
           else result);
        Some (Some result, None)
      })"

definition decodePGN130312 :: DecoderFunc where
  "decodePGN130312 data =
     (if len data < 6 then Some (None, None)
      else do {
        sid \<leftarrow> u8 data 0;
        instance \<leftarrow> u8 data 1;
        source \<leftarrow> u8 data 2;
        actualTempRaw \<leftarrow> u16le data 3;
        let result = Map.empty(''sid'' \<mapsto> U8 sid,
                               ''temperature_instance'' \<mapsto> U8 instance,
                               ''temperature_source'' \<mapsto> U8 source);
        let result =
          (if actualTempRaw \<noteq> 0xFFFF then
             result(''actual_temperature_c'' \<mapsto> F64 (ufloat actualTempRaw * 0.01 - 273.15))
           else result);
        (if len data \<ge> 7 then do {
           setTempRaw \<leftarrow> u16le data 5;
           let result =
             (if setTempRaw \<noteq> 0xFFFF then
                result(''set_temperature_c'' \<mapsto> F64 (ufloat setTempRaw * 0.01 - 273.15))
              else result);
           Some (Some result, None)
         }
         else Some (Some result, None))
      })"

definition decodePGN130313 :: DecoderFunc where
  "decodePGN130313 data =
     (if len data < 6 then Some (None, None)
      else do {
        sid \<leftarrow> u8 data 0;
        instance \<leftarrow> u8 data 1;
        source \<leftarrow> u8 data 2;
        actualHumidityRaw \<leftarrow> u16le data 3;
        let result = Map.empty(''sid'' \<mapsto> U8 sid,
                               ''humidity_instance'' \<mapsto> U8 instance,
                               ''humidity_source'' \<mapsto> U8 source);
        let result =
          (if actualHumidityRaw \<noteq> 0xFFFF then
             result(''actual_humidity_pct'' \<mapsto> F64 (ufloat actualHumidityRaw * 0.004))
           else result);
        Some (Some result, None)
      })"

subsection \<open>The decoder and its handler table\<close>

record Decoder =
  handlers :: "int \<rightharpoonup> DecoderFunc"

definition registerDefaultHandlers :: "Decoder \<Rightarrow> Decoder" where
  "registerDefaultHandlers d =
     d\<lparr>handlers := (handlers d)(
        127257 \<mapsto> decodePGN127257,
        127251 \<mapsto> decodePGN127251,
        130306 \<mapsto> decodePGN130306,
        127250 \<mapsto> decodePGN127250,
        129026 \<mapsto> decodePGN129026,
        129025 \<mapsto> decodePGN129025,
        129029 \<mapsto> decodePGN129029,
        128267 \<mapsto> decodePGN128267,
        128259 \<mapsto> decodePGN128259,
        128275 \<mapsto> decodePGN128275,
        127245 \<mapsto> decodePGN127245,
        127237 \<mapsto> decodePGN127237,
        129284 \<mapsto> decodePGN129284,
        129540 \<mapsto> decodePGN129540,
        126992 \<mapsto> decodePGN126992,
        127508 \<mapsto> decodePGN127508,
        127489 \<mapsto> decodePGN127489,
        130310 \<mapsto> decodePGN130310,
        130312 \<mapsto> decodePGN130312,
        130313 \<mapsto> decodePGN130313)\<rparr>"

definition NewDecoder :: Decoder where
  "NewDecoder = registerDefaultHandlers \<lparr>handlers = Map.empty\<rparr>"

definition Decode :: "Decoder \<Rightarrow> int \<Rightarrow> byte list \<Rightarrow> decode_result option" where
  "Decode d pgn data =
     (case handlers d pgn of
        Some handler \<Rightarrow> handler data
      | None \<Rightarrow> Some (None, None))"

subsection \<open>PGN registry tables (decoder.go)\<close>

text \<open>The Go map literals, as association lists read with \<open>map_of\<close>; their keys are
  distinct, as the Go compiler requires of a map literal.\<close>

definition MeasurementMap :: "(int \<times> string) list" where
  "MeasurementMap =
     [(129025, ''position''),
      (129026, ''navigation''),
      (129029, ''position''),
      (127250, ''heading''),
      (127251, ''navigation''),
      (128259, ''navigation''),
      (128267, ''navigation''),
      (128275, ''log''),
      (129284, ''navigation''),
      (129285, ''navigation''),
      (129540, ''gnss''),
      (130306, ''wind''),
      (130310, ''environment''),
      (130311, ''environment''),
      (130312, ''environment''),
      (130313, ''environment''),
      (130314, ''environment''),
      (127488, ''engine''),
      (127489, ''engine''),
      (127493, ''transmission''),
      (127497, ''engine''),
      (127498, ''engine''),
      (127500, ''dc_power''),
      (127501, ''dc_power''),
      (127502, ''dc_power''),
      (127503, ''ac_power''),
      (127504, ''ac_power''),
      (127505, ''dc_power''),
      (127506, ''dc_power''),
      (127507, ''dc_power''),
      (127508, ''dc_power''),
      (127509, ''dc_power''),
      (127257, ''attitude''),
      (127252, ''attitude''),
      (129038, ''ais''),
      (129039, ''ais''),
      (129040, ''ais''),
      (129793, ''ais''),
      (129794, ''ais''),
      (129798, ''ais''),
      (129802, ''ais''),
      (129809, ''ais''),
      (129810, ''ais''),
      (126992, ''system''),
      (126993, ''system''),
      (126996, ''system''),
      (126998, ''system''),
      (127245, ''autopilot''),
      (127237, ''autopilot''),
      (127258, ''autopilot''),
      (126208, ''system''),
      (130576, ''craft_status''),
      (130577, ''craft_status''),
      (126720, ''proprietary''),
      (130822, ''proprietary'')]"

definition PGNNames :: "(int \<times> string) list" where
  "PGNNames =
     [(129025, ''Position Rapid Update''),
      (129026, ''COG & SOG Rapid Update''),
      (129029, ''GNSS Position Data''),
      (127250, ''Vessel Heading''),
      (127251, ''Rate of Turn''),
      (127257, ''Attitude''),
      (127252, ''Heave''),
      (128259, ''Speed Water Referenced''),
      (128267, ''Water Depth''),
      (128275, ''Distance Log''),
      (129284, ''Navigation Data''),
      (129285, ''Route/WP Information''),
      (129540, ''GNSS Satellites in View''),
      (130306, ''Wind Data''),
      (130310, ''Environmental Parameters''),
      (130311, ''Environmental Parameters''),
      (130312, ''Temperature''),
      (130313, ''Humidity''),
      (130314, ''Actual Pressure''),
      (127488, ''Engine Parameters Rapid''),
      (127489, ''Engine Parameters Dynamic''),
      (127493, ''Transmission Parameters''),
      (127497, ''Trip Parameters Engine''),
      (127498, ''Engine Parameters Static''),
      (127500, ''Load Controller State''),
      (127501, ''Binary Switch Bank Status''),
      (127502, ''Switch Bank Control''),
      (127503, ''AC Input Status''),
      (127504, ''AC Output Status''),
      (127505, ''Fluid Level''),
      (127506, ''DC Detailed Status''),
      (127507, ''Charger Status''),
      (127508, ''Battery Status''),
      (127509, ''Inverter Status''),
      (129038, ''AIS Class A Position''),
      (129039, ''AIS Class B Position''),
      (129040, ''AIS Class B Extended Position''),
      (129793, ''AIS UTC Date/Time''),
      (129794, ''AIS Class A Static Data''),
      (129798, ''AIS SAR Aircraft Position''),
      (129802, ''AIS Safety Broadcast''),
      (129809, ''AIS Class B Static A''),
      (129810, ''AIS Class B Static B''),
      (126992, ''System Time''),
      (126993, ''Heartbeat''),
      (126996, ''Product Information''),
      (126998, ''Configuration Information''),
      (127245, ''Rudder''),
      (127237, ''Heading/Track Control''),
      (127258, ''Magnetic Variation''),
      (126208, ''Group Function''),
      (130576, ''Small Craft Status''),
      (130577, ''Direction Data''),
      (126720, ''Proprietary''),
      (130822, ''Proprietary Fast'')]"

definition GetMeasurementType :: "int \<Rightarrow> string" where
  "GetMeasurementType pgn =
     (case map_of MeasurementMap pgn of Some m \<Rightarrow> m | None \<Rightarrow> ''nmea_general'')"

definition GetPGNName :: "int \<Rightarrow> string" where
  "GetPGNName pgn =
     (case map_of PGNNames pgn of Some name \<Rightarrow> name | None \<Rightarrow> ''Unknown'')"

section \<open>Frames, messages and statistics (types.go)\<close>

record RawFrame =
  Timestamp :: int
  Topic :: string
  ID :: "32 word"
  Priority :: byte
  DP :: byte
  PF :: byte
  PS :: byte
  Source :: byte
  Dest :: byte
  PGN :: int
  Length :: int
  Data :: "byte list"

text \<open>
  \<open>nmea.DecodedMessage\<close> and \<open>storage.DecodedMessage\<close> have the same fields (the
  second is a copy made to avoid an import cycle); one record stands for both.
  \<open>Fields\<close> is \<open>None\<close> for a \<open>nil\<close> map.
\<close>

record DecodedMessage =
  Timestamp :: int
  PGN :: int
  PGNName :: string
  Source :: byte
  Measurement :: string
  Fields :: "fields option"
  Raw :: "byte list"

text \<open>The counters are Go \<open>int64\<close>: \<open>++\<close> wraps around.\<close>

record Statistics =
  MessagesProcessed :: "64 word"
  DecodeSuccesses :: "64 word"
  DecodeFailures :: "64 word"
  PGNCounts :: "int \<rightharpoonup> 64 word"
  MeasurementCounts :: "string \<rightharpoonup> 64 word"
  LastUpdate :: int
  StartTime :: int

text \<open>\<open>NewStatistics\<close> reads the clock twice; the two readings are its arguments.\<close>

definition NewStatistics :: "int \<Rightarrow> int \<Rightarrow> Statistics" where
  "NewStatistics now1 now2 =
     \<lparr>MessagesProcessed = 0, DecodeSuccesses = 0, DecodeFailures = 0,
      PGNCounts = Map.empty, MeasurementCounts = Map.empty,
      LastUpdate = now2, StartTime = now1\<rparr>"

text \<open>\<open>m[k]++\<close> on a Go map: a missing key reads as zero.\<close>

definition incr :: "('k \<rightharpoonup> 64 word) \<Rightarrow> 'k \<Rightarrow> ('k \<rightharpoonup> 64 word)" where
  "incr m k = m(k \<mapsto> (case m k of None \<Rightarrow> 0 | Some c \<Rightarrow> c) + 1)"

text \<open>\<open>RecordMessage\<close>; \<open>now\<close> is the clock reading of its last statement.\<close>

definition RecordMessage :: "Statistics \<Rightarrow> int \<Rightarrow> int \<Rightarrow> string \<Rightarrow> bool \<Rightarrow> Statistics" where
  "RecordMessage s now pgn measurement success =
     (let s = s\<lparr>MessagesProcessed := MessagesProcessed s + 1\<rparr>;
          s = (if success then s\<lparr>DecodeSuccesses := DecodeSuccesses s + 1\<rparr>
               else s\<lparr>DecodeFailures := DecodeFailures s + 1\<rparr>);
          s = s\<lparr>PGNCounts := incr (PGNCounts s) pgn\<rparr>;
          s = s\<lparr>MeasurementCounts := incr (MeasurementCounts s) measurement\<rparr>
      in s\<lparr>LastUpdate := now\<rparr>)"

text \<open>\<open>GetSnapshot\<close>; \<open>now\<close> is the clock reading of \<open>time.Since\<close>, and
  \<open>Duration.Seconds()\<close> is the nanosecond count divided by \<open>10^9\<close>.\<close>

definition GetSnapshot :: "Statistics \<Rightarrow> int \<Rightarrow> (string \<rightharpoonup> dyn)" where
  "GetSnapshot s now =
     (let successRate =
            (if 0 <s MessagesProcessed s
             then sfloat (DecodeSuccesses s) / sfloat (MessagesProcessed s) * 100
             else 0);
          uptime = now - StartTime s;
          uptimeSeconds = real_of_int uptime / 10 ^ 9;
          msgPerSec =
            (if uptimeSeconds > 0 then sfloat (MessagesProcessed s) / uptimeSeconds else 0)
      in Map.empty(
           ''messages_processed'' \<mapsto> I64 (MessagesProcessed s),
           ''decode_successes'' \<mapsto> I64 (DecodeSuccesses s),
           ''decode_failures'' \<mapsto> I64 (DecodeFailures s),
           ''success_rate'' \<mapsto> F64 successRate,
           ''uptime_seconds'' \<mapsto> F64 uptimeSeconds,
           ''messages_per_sec'' \<mapsto> F64 msgPerSec,
           ''last_update'' \<mapsto> Time (LastUpdate s)))"

text \<open>A run of \<open>RecordMessage\<close> calls, each given as (clock, pgn, measurement, success).\<close>

fun RecordMessages :: "Statistics \<Rightarrow> (int \<times> int \<times> string \<times> bool) list \<Rightarrow> Statistics" where
  "RecordMessages s [] = s"
| "RecordMessages s ((now, pgn, measurement, success) # calls) =
     RecordMessages (RecordMessage s now pgn measurement success) calls"

section \<open>Ring buffer with a latest-by-PGN index (memory_buffer.go)\<close>

text \<open>
  Go's \<open>a % b\<close> on \<open>int\<close>: the remainder of the division that truncates toward
  zero, and a run-time panic when \<open>b\<close> is zero.
\<close>

definition go_rem :: "int \<Rightarrow> int \<Rightarrow> int option" where
  "go_rem a b = (if b = 0 then None else Some (a smod b))"

text \<open>The zero \<open>time.Time\<close> (1 January of year 1, UTC) and the zero message that
  \<open>make\<close> fills a fresh slice with.\<close>

definition zeroTime :: int where
  "zeroTime = - 62135596800 * 1000000000"

definition zeroMessage :: DecodedMessage where
  "zeroMessage =
     \<lparr>Timestamp = zeroTime, PGN = 0, PGNName = [], Source = 0, Measurement = [],
      Fields = None, Raw = []\<rparr>"

text \<open>
  \<open>latestByPGN\<close> maps a PGN to a pointer to a private copy of the pushed message
  (\<open>&msg\<close> is the address of the parameter), so the map holds the message itself.
\<close>

record RingBuffer =
  data :: "DecodedMessage list"
  head :: int
  size_rb :: int
  capacity :: int
  latestByPGN :: "int \<rightharpoonup> DecodedMessage"

text \<open>\<open>make([]DecodedMessage, capacity)\<close> panics on a negative length.\<close>

definition NewRingBuffer :: "int \<Rightarrow> RingBuffer option" where
  "NewRingBuffer c =
     (if c < 0 then None
      else Some \<lparr>data = replicate (nat c) zeroMessage, head = 0, size_rb = 0,
                  capacity = c, latestByPGN = Map.empty\<rparr>)"

definition Push :: "DecodedMessage \<Rightarrow> RingBuffer \<Rightarrow> RingBuffer option" where
  "Push msg rb =
     (if 0 \<le> head rb \<and> head rb < len (data rb) then
        (let rb = rb\<lparr>data := (data rb)[nat (head rb) := msg]\<rparr>
         in case go_rem (head rb + 1) (capacity rb) of
              None \<Rightarrow> None
            | Some h \<Rightarrow>
                (let rb = rb\<lparr>head := h\<rparr>;
                     rb = (if size_rb rb < capacity rb
                           then rb\<lparr>size_rb := size_rb rb + 1\<rparr> else rb)
                 in Some (rb\<lparr>latestByPGN := (latestByPGN rb)(PGN msg \<mapsto> msg)\<rparr>)))
      else None)"

text \<open>
  The loop of \<open>GetRecent\<close> from index \<open>i\<close> on: the elements it stores in
  \<open>result[i]\<close>, \<open>result[i+1]\<close>, ..., \<open>result[n-1]\<close>, or \<open>None\<close> when an index
  expression panics.
\<close>

function GetRecent_loop :: "RingBuffer \<Rightarrow> int \<Rightarrow> int \<Rightarrow> DecodedMessage list option" where
  "GetRecent_loop rb n i =
     (if i < n then
        (case go_rem (head rb - 1 - i + capacity rb) (capacity rb) of
           None \<Rightarrow> None
         | Some idx \<Rightarrow>
             (case elem (data rb) idx of
                None \<Rightarrow> None
              | Some x \<Rightarrow> map_option ((#) x) (GetRecent_loop rb n (i + 1))))
      else Some [])"
  by pat_completeness auto
termination
  by (relation "measure (\<lambda>(rb, n, i). nat (n - i))") auto

declare GetRecent_loop.simps [simp del]

text \<open>\<open>make([]DecodedMessage, n)\<close> panics on a negative \<open>n\<close>.\<close>

definition GetRecent :: "int \<Rightarrow> RingBuffer \<Rightarrow> DecodedMessage list option" where
  "GetRecent n rb =
     (let n = (if n > size_rb rb then size_rb rb else n)
      in if n < 0 then None else GetRecent_loop rb n 0)"

definition GetLatestByPGN :: "int \<Rightarrow> RingBuffer \<Rightarrow> DecodedMessage option" where
  "GetLatestByPGN pgn rb = latestByPGN rb pgn"

definition Size :: "RingBuffer \<Rightarrow> int" where
  "Size rb = size_rb rb"

text \<open>A sequence of \<open>Push\<close> calls, in order; it stops at the first panic.\<close>

fun Pushes :: "RingBuffer \<Rightarrow> DecodedMessage list \<Rightarrow> RingBuffer option" where
  "Pushes rb [] = Some rb"
| "Pushes rb (msg # msgs) =
     (case Push msg rb of None \<Rightarrow> None | Some rb' \<Rightarrow> Pushes rb' msgs)"

section \<open>Fusion mapper (boomsense_mapper.go)\<close>

record BoomSenseMapper =
  buffer :: RingBuffer

definition NewBoomSenseMapper :: "RingBuffer \<Rightarrow> BoomSenseMapper" where
  "NewBoomSenseMapper rb = \<lparr>buffer = rb\<rparr>"

record BoomSenseData =
  BoomAngle :: real
  RollRate :: real
  PitchRate :: real
  YawRate :: real
  MainsheetLoad :: real
  VangLoad :: real
  EventType :: string
  Timestamp :: int
  WindSpeed :: real
  WindAngle :: real
  BoatSpeed :: real

text \<open>\<open>msg.Fields[key].(float64)\<close> with the comma-ok form: the value when the key is
  present and holds a \<open>float64\<close>; indexing a \<open>nil\<close> map yields no value.\<close>

definition float_field :: "DecodedMessage \<Rightarrow> string \<Rightarrow> real option" where
  "float_field msg key =
     (case Fields msg of
        None \<Rightarrow> None
      | Some m \<Rightarrow> (case m key of Some (F64 x) \<Rightarrow> Some x | _ \<Rightarrow> None))"

text \<open>\<open>Time.UnixMilli()\<close> of an instant given in nanoseconds.\<close>

definition UnixMilli :: "int \<Rightarrow> int" where
  "UnixMilli ns = ns div 1000000"

definition GetCurrentData :: "BoomSenseMapper \<Rightarrow> BoomSenseData" where
  "GetCurrentData m =
     (let dat = \<lparr>BoomAngle = 0, RollRate = 0, PitchRate = 0, YawRate = 0,
                 MainsheetLoad = 0, VangLoad = 0, EventType = ''normal'',
                 Timestamp = 0, WindSpeed = 0, WindAngle = 0, BoatSpeed = 0\<rparr>;
          dat = (case GetLatestByPGN 127257 (buffer m) of
                   None \<Rightarrow> dat
                 | Some msg \<Rightarrow>
                     (let dat = (case float_field msg ''heel_angle'' of
                                   Some heelAngle \<Rightarrow> dat\<lparr>BoomAngle := heelAngle\<rparr>
                                 | None \<Rightarrow> dat);
                          dat = (case float_field msg ''pitch_deg'' of
                                   Some pitch \<Rightarrow> dat\<lparr>PitchRate := pitch\<rparr>
                                 | None \<Rightarrow> dat);
                          dat = (case float_field msg ''yaw_deg'' of
                                   Some yaw \<Rightarrow> dat\<lparr>YawRate := yaw\<rparr>
                                 | None \<Rightarrow> dat)
                      in dat\<lparr>Timestamp := UnixMilli (DecodedMessage.Timestamp msg)\<rparr>));
          dat = (case GetLatestByPGN 127251 (buffer m) of
                   None \<Rightarrow> dat
                 | Some msg \<Rightarrow>
                     (case float_field msg ''rate_of_turn_deg_s'' of
                        Some rot \<Rightarrow> dat\<lparr>RollRate := rot\<rparr>
                      | None \<Rightarrow> dat));
          dat = (case GetLatestByPGN 130306 (buffer m) of
                   None \<Rightarrow> dat
                 | Some msg \<Rightarrow>
                     (let dat = (case float_field msg ''wind_speed_kts'' of
                                   Some ws \<Rightarrow> dat\<lparr>WindSpeed := ws\<rparr>
                                 | None \<Rightarrow> dat);
                          dat = (case float_field msg ''wind_angle_deg'' of
                                   Some wa \<Rightarrow> dat\<lparr>WindAngle := wa\<rparr>
                                 | None \<Rightarrow> dat)
                      in if Timestamp dat = 0
                         then dat\<lparr>Timestamp := UnixMilli (DecodedMessage.Timestamp msg)\<rparr>
                         else dat));
          dat = (case GetLatestByPGN 129026 (buffer m) of
                   None \<Rightarrow> dat
                 | Some msg \<Rightarrow>
                     (case float_field msg ''sog_kts'' of
                        Some sog \<Rightarrow> dat\<lparr>BoatSpeed := sog\<rparr>
                      | None \<Rightarrow> dat));
          dat = (if BoatSpeed dat = 0 then
                   (case GetLatestByPGN 128259 (buffer m) of
                      None \<Rightarrow> dat
                    | Some msg \<Rightarrow>
                        (case float_field msg ''water_speed_kts'' of
                           Some ws \<Rightarrow> dat\<lparr>BoatSpeed := ws\<rparr>
                         | None \<Rightarrow> dat))
                 else dat)
      in dat)"

definition GetBoatSpeed :: "BoomSenseMapper \<Rightarrow> real" where
  "GetBoatSpeed m =
     (case (case GetLatestByPGN 129026 (buffer m) of
              None \<Rightarrow> None
            | Some msg \<Rightarrow> float_field msg ''sog_kts'') of
        Some sog \<Rightarrow> sog
      | None \<Rightarrow>
          (case (case GetLatestByPGN 128259 (buffer m) of
                   None \<Rightarrow> None
                 | Some msg \<Rightarrow> float_field msg ''water_speed_kts'') of
             Some ws \<Rightarrow> ws
           | None \<Rightarrow> 0))"

subsection \<open>Auxiliary notions for the ring buffer\<close>

text \<open>The state of a buffer of capacity \<open>C\<close> after the messages \<open>msgs\<close> have been
  pushed: message number \<open>k\<close> of the last \<open>C\<close> sits in slot \<open>k mod C\<close>.\<close>

definition rb_inv :: "int \<Rightarrow> DecodedMessage list \<Rightarrow> RingBuffer \<Rightarrow> bool" where
  "rb_inv C msgs rb \<longleftrightarrow>
     capacity rb = C \<and> length (data rb) = nat C
     \<and> head rb = len msgs mod C
     \<and> size_rb rb = min (len msgs) C
     \<and> (\<forall>k. k < length msgs \<and> len msgs - C \<le> int k \<longrightarrow>
            data rb ! nat (int k mod C) = msgs ! k)
     \<and> (\<forall>p. latestByPGN rb p = find (\<lambda>m. PGN m = p) (rev msgs))"

text \<open>The four messages of scenario S4.\<close>

definition msgA :: DecodedMessage where
  "msgA = zeroMessage\<lparr>PGN := 1, PGNName := ''A''\<rparr>"

definition msgB :: DecodedMessage where
  "msgB = zeroMessage\<lparr>PGN := 2, PGNName := ''B''\<rparr>"

definition msgC :: DecodedMessage where
  "msgC = zeroMessage\<lparr>PGN := 1, PGNName := ''C''\<rparr>"

definition msgD :: DecodedMessage where
  "msgD = zeroMessage\<lparr>PGN := 3, PGNName := ''D''\<rparr>"

section \<open>Sailing event detector (boomsense_sensor/types.go, detector.go)\<close>

text \<open>
  In this part every \<open>float64\<close> is a real number: the arithmetic is exact, without
  rounding or overflow. A reading that may be NaN or infinite (\<open>boomNorm\<close> is NaN
  while the boom is uncalibrated) is a \<open>real option\<close>, \<open>None\<close> for NaN and for both
  infinities, which the detector treats alike; times and gyro rates are finite.
\<close>

record Config =
  MaxBufferSize :: int
  EulerTau :: real
  BoomAxis :: string
  CrashGyDPS :: real
  NormalGyMin :: real
  BoomStepCrash :: real
  BoomStepNormal :: real
  CrashDT :: real
  NormalDT :: real
  RollHit :: real
  RollDT :: real
  TackGyMin :: real
  TackGyMax :: real
  TackBoomStep :: real
  TackDTMax :: real
  TackMinRollDelta :: real
  BayesSigma0 :: real
  QALowThreshold :: real
  QAHighThreshold :: real
  RefractoryPeriod :: real

definition DefaultConfig :: Config where
  "DefaultConfig =
     \<lparr>MaxBufferSize = 600, EulerTau = 0.7, BoomAxis = ''roll'',
      CrashGyDPS = 120, NormalGyMin = 20, BoomStepCrash = 1.2, BoomStepNormal = 1.0,
      CrashDT = 0.6, NormalDT = 2.5, RollHit = 8, RollDT = 0.4,
      TackGyMin = 15, TackGyMax = 110, TackBoomStep = 1.0, TackDTMax = 3.0,
      TackMinRollDelta = 12, BayesSigma0 = 10, QALowThreshold = 0.02,
      QAHighThreshold = 0.85, RefractoryPeriod = 3.0\<rparr>"

record Event =
  Type :: string
  Timestamp :: int
  GyroPeak :: real
  BoomDelta :: real
  RollDelta :: real
  Duration :: real
  Direction :: string
  Overshoot :: real
  Score :: real
  WindSpeed :: real
  WindAngle :: real

record eventSample =
  t :: real
  gyro :: real
  boomNorm :: "real option"
  roll :: "real option"

text \<open>
  The detector's state. Its listeners are not part of the model: each call returns the
  event it publishes, which is what every listener is handed.
\<close>

record EventDetector =
  config :: Config
  buffer :: "eventSample list"
  maxBufferSize :: int
  lastEventTime :: real

text \<open>\<open>make([]eventSample, 0, config.MaxBufferSize)\<close> panics on a negative capacity.\<close>

definition NewEventDetector :: "Config \<Rightarrow> EventDetector option" where
  "NewEventDetector cfg =
     (if MaxBufferSize cfg < 0 then None
      else Some \<lparr>config = cfg, buffer = [], maxBufferSize = MaxBufferSize cfg,
                  lastEventTime = - (10 ^ 9)\<rparr>)"

text \<open>The values of a series that are neither NaN nor infinite, in order.\<close>

fun valid_values :: "real option list \<Rightarrow> real list" where
  "valid_values [] = []"
| "valid_values (None # xs) = valid_values xs"
| "valid_values (Some x # xs) = x # valid_values xs"

text \<open>The nested loops over \<open>i < j\<close> of \<open>spanIn\<close>: the largest \<open>rlValid[i] - rlValid[j]\<close>
  above the running \<open>rollDrop\<close>.\<close>

fun rollDrop_loop :: "real list \<Rightarrow> real \<Rightarrow> real" where
  "rollDrop_loop [] rollDrop = rollDrop"
| "rollDrop_loop (x # xs) rollDrop =
     rollDrop_loop xs (fold (\<lambda>y r. if x - y > r then x - y else r) xs rollDrop)"

definition spanIn ::
    "EventDetector \<Rightarrow> real \<Rightarrow> real \<Rightarrow> real \<times> real \<times> real \<times> real \<times> real list \<times> real list" where
  "spanIn ed tNow horizon =
     (let t0 = max 0 (tNow - horizon);
          sub = filter (\<lambda>s. t s \<ge> t0) (buffer ed)
      in if sub = [] then (0, 0, 0, 0, [], [])
         else
           (let dt = t (last sub) - t (hd sub);
                gyPeak = fold (\<lambda>s p. if \<bar>gyro s\<bar> > p then \<bar>gyro s\<bar> else p) sub 0;
                bnValid = valid_values (map boomNorm sub);
                boomDelta =
                  (if length bnValid \<ge> 2 then
                     (case fold (\<lambda>v (minBn, maxBn).
                                   (if v < minBn then v else minBn,
                                    if v > maxBn then v else maxBn))
                                bnValid (hd bnValid, hd bnValid) of
                        (minBn, maxBn) \<Rightarrow> maxBn - minBn)
                   else 0);
                rlValid = valid_values (map roll sub);
                rollDrop = (if length rlValid \<ge> 2 then rollDrop_loop rlValid 0 else 0)
            in (dt, gyPeak, boomDelta, rollDrop, bnValid, rlValid)))"

text \<open>\<open>time.Unix(0, int64(tNow*1e9))\<close>, as nanoseconds since the epoch.\<close>

definition eventTime :: "real \<Rightarrow> int" where
  "eventTime tNow = trunc (tNow * 10 ^ 9)"

definition checkCrashGybe :: "EventDetector \<Rightarrow> real \<Rightarrow> Event option" where
  "checkCrashGybe ed tNow =
     (case spanIn ed tNow (CrashDT (config ed)) of
        (dt, gyPeak, boomDelta, rollDrop, bnSeries, rlSeries) \<Rightarrow>
          if gyPeak \<ge> CrashGyDPS (config ed) \<and> boomDelta \<ge> BoomStepCrash (config ed)
          then Some \<lparr>Type = ''gybe_crash'', Timestamp = eventTime tNow, GyroPeak = gyPeak,
                      BoomDelta = boomDelta, RollDelta = rollDrop, Duration = dt,
                      Direction = [], Overshoot = 0, Score = 0, WindSpeed = 0,
                      WindAngle = 0\<rparr>
          else None)"

definition checkNormalGybe :: "EventDetector \<Rightarrow> real \<Rightarrow> Event option" where
  "checkNormalGybe ed tNow =
     (case spanIn ed tNow (NormalDT (config ed)) of
        (dt, gyPeak, boomDelta, rollDrop, bnSeries, rlSeries) \<Rightarrow>
          if gyPeak \<ge> NormalGyMin (config ed) \<and> gyPeak < CrashGyDPS (config ed)
             \<and> boomDelta \<ge> BoomStepNormal (config ed)
          then Some \<lparr>Type = ''gybe_normal'', Timestamp = eventTime tNow, GyroPeak = gyPeak,
                      BoomDelta = boomDelta, RollDelta = rollDrop, Duration = dt,
                      Direction = [], Overshoot = 0, Score = 0, WindSpeed = 0,
                      WindAngle = 0\<rparr>
          else None)"

definition tackDirection :: "real list \<Rightarrow> string" where
  "tackDirection bnSeries =
     (if length bnSeries < 2 then []
      else if hd bnSeries > 0 \<and> last bnSeries < 0 then ''stb_to_port''
      else if hd bnSeries < 0 \<and> last bnSeries > 0 then ''port_to_stb''
      else [])"

text \<open>The loop \<open>for i := lo; i < hi; i++ { sum += xs[i] }\<close>; \<open>None\<close> when an index
  is out of range.\<close>

function sum_range :: "real list \<Rightarrow> int \<Rightarrow> int \<Rightarrow> real \<Rightarrow> real option" where
  "sum_range xs i hi acc =
     (if i < hi then
        (case elem xs i of
           None \<Rightarrow> None
         | Some x \<Rightarrow> sum_range xs (i + 1) hi (acc + x))
      else Some acc)"
  by pat_completeness auto
termination
  by (relation "measure (\<lambda>(xs, i, hi, acc). nat (hi - i))") auto

declare sum_range.simps [simp del]

text \<open>The loop that keeps the largest \<open>|xs[i] - target|\<close> for \<open>i\<close> from \<open>lo\<close> below
  \<open>hi\<close>.\<close>

function maxdev_range :: "real list \<Rightarrow> real \<Rightarrow> int \<Rightarrow> int \<Rightarrow> real \<Rightarrow> real option" where
  "maxdev_range xs target i hi maxDev =
     (if i < hi then
        (case elem xs i of
           None \<Rightarrow> None
         | Some x \<Rightarrow>
             (let dev = \<bar>x - target\<bar>
              in maxdev_range xs target (i + 1) hi (if dev > maxDev then dev else maxDev)))
      else Some maxDev)"
  by pat_completeness auto
termination
  by (relation "measure (\<lambda>(xs, target, i, hi, maxDev). nat (hi - i))") auto

declare maxdev_range.simps [simp del]

text \<open>\<open>calculateOvershoot\<close>; \<open>None\<close> is an index-out-of-range panic.\<close>

definition calculateOvershoot :: "real list \<Rightarrow> real option" where
  "calculateOvershoot bnSeries =
     (if len bnSeries < 4 then Some 0
      else do {
        let headN = trunc (max 2 (real_of_int (len bnSeries) / 4));
        headSum \<leftarrow> sum_range bnSeries 0 headN 0;
        let tailN = trunc (max 2 (real_of_int (len bnSeries) / 4));
        tailSum \<leftarrow> sum_range bnSeries (len bnSeries - tailN) (len bnSeries) 0;
        let tail = tailSum / real_of_int tailN;
        let target = tail;
        let tailThird = trunc (max 5 (real_of_int (len bnSeries) / 3));
        maxDev \<leftarrow> maxdev_range bnSeries target (len bnSeries - tailThird) (len bnSeries) 0;
        Some (max 0 (maxDev - 0.05))
      })"

text \<open>\<open>math.Round\<close>: to the nearest integer, halves away from zero.\<close>

definition go_round :: "real \<Rightarrow> real" where
  "go_round x = (if 0 \<le> x then real_of_int \<lfloor>x + 1 / 2\<rfloor> else real_of_int \<lceil>x - 1 / 2\<rceil>)"

definition tackQualityScore :: "real \<Rightarrow> real \<Rightarrow> real \<Rightarrow> real \<Rightarrow> real" where
  "tackQualityScore dt gyPeak rollDrop overshoot =
     (let tComp = max 0 (40 * (1.6 / max 0.6 dt));
          gyComp = max 0 (30 * (1.0 - \<bar>gyPeak - 55\<bar> / 55));
          rlComp = max 0 (20 * (min rollDrop 25 / 25));
          osComp = max 0 (10 * (1.0 - min (overshoot / 0.25) 1.0));
          score = tComp + gyComp + rlComp + osComp
      in min 100 (go_round (score * 10) / 10))"

text \<open>\<open>checkTack\<close>: the outer \<open>None\<close> is the panic of \<open>calculateOvershoot\<close>, the
  inner one the \<open>nil\<close> event.\<close>

definition checkTack :: "EventDetector \<Rightarrow> real \<Rightarrow> Event option option" where
  "checkTack ed tNow =
     (case spanIn ed tNow (TackDTMax (config ed)) of
        (dt, gyPeak, boomDelta, rollDrop, bnSeries, rlSeries) \<Rightarrow>
          if gyPeak \<ge> TackGyMin (config ed) \<and> gyPeak \<le> TackGyMax (config ed)
             \<and> boomDelta \<ge> TackBoomStep (config ed)
             \<and> rollDrop \<ge> TackMinRollDelta (config ed)
          then
            (let direction = tackDirection bnSeries
             in case calculateOvershoot bnSeries of
                  None \<Rightarrow> None
                | Some overshoot \<Rightarrow>
                    (let score = tackQualityScore dt gyPeak rollDrop overshoot
                     in Some (Some \<lparr>Type = ''tack'', Timestamp = eventTime tNow,
                                     GyroPeak = gyPeak, BoomDelta = boomDelta,
                                     RollDelta = rollDrop, Duration = dt,
                                     Direction = direction, Overshoot = overshoot,
                                     Score = score, WindSpeed = 0, WindAngle = 0\<rparr>)))
          else Some None)"

definition checkBoomHit :: "EventDetector \<Rightarrow> real \<Rightarrow> Event option" where
  "checkBoomHit ed tNow =
     (case spanIn ed tNow (RollDT (config ed)) of
        (dt, gyPeak, boomDelta, rollDrop, bnSeries, rlSeries) \<Rightarrow>
          if gyPeak \<ge> CrashGyDPS (config ed) + 20 \<and> rollDrop \<ge> RollHit (config ed)
          then Some \<lparr>Type = ''boom_hit'', Timestamp = eventTime tNow, GyroPeak = gyPeak,
                      BoomDelta = 0, RollDelta = rollDrop, Duration = dt,
                      Direction = [], Overshoot = 0, Score = 0, WindSpeed = 0,
                      WindAngle = 0\<rparr>
          else None)"

text \<open>\<open>publish\<close>: record the event's time, in seconds, and hand the event to the
  listeners.\<close>

definition publish :: "EventDetector \<Rightarrow> Event \<Rightarrow> EventDetector \<times> Event option" where
  "publish ed evt =
     (ed\<lparr>lastEventTime := real_of_int (Timestamp evt) / 10 ^ 9\<rparr>, Some evt)"

definition maybeEmit :: "EventDetector \<Rightarrow> real \<Rightarrow> (EventDetector \<times> Event option) option" where
  "maybeEmit ed tNow =
     (if tNow - lastEventTime ed < RefractoryPeriod (config ed) then Some (ed, None)
      else
        (case checkCrashGybe ed tNow of
           Some evt \<Rightarrow> Some (publish ed evt)
         | None \<Rightarrow>
             (case checkNormalGybe ed tNow of
                Some evt \<Rightarrow> Some (publish ed evt)
              | None \<Rightarrow>
                  (case checkTack ed tNow of
                     None \<Rightarrow> None
                   | Some (Some evt) \<Rightarrow> Some (publish ed evt)
                   | Some None \<Rightarrow>
                       (case checkBoomHit ed tNow of
                          Some evt \<Rightarrow> Some (publish ed evt)
                        | None \<Rightarrow> Some (ed, None))))))"

text \<open>
  \<open>OnSample\<close>; the time is the \<open>UnixNano\<close> of its \<open>time.Time\<close> argument. The result
  is the new state and the event published by this call, if any; \<open>None\<close> is a panic.
\<close>

definition OnSample ::
    "EventDetector \<Rightarrow> int \<Rightarrow> real \<Rightarrow> real option \<Rightarrow> real option
     \<Rightarrow> (EventDetector \<times> Event option) option" where
  "OnSample ed tm gyroY bn rl =
     (let ts = real_of_int tm / 10 ^ 9;
          sample = \<lparr>t = ts, gyro = gyroY, boomNorm = bn, roll = rl\<rparr>;
          buf = buffer ed @ [sample];
          buf = (if len buf > maxBufferSize ed then tl buf else buf)
      in maybeEmit (ed\<lparr>buffer := buf\<rparr>) ts)"

text \<open>
  A sequence of \<open>OnSample\<close> calls, each given as (time, gyroY, boomNorm, roll): the
  events published, in order, and the final state, or \<open>None\<close> for it when a call
  panicked (the events are then those published before the panic).
\<close>

fun OnSamples ::
    "EventDetector \<Rightarrow> (int \<times> real \<times> real option \<times> real option) list
     \<Rightarrow> Event list \<times> EventDetector option" where
  "OnSamples ed [] = ([], Some ed)"
| "OnSamples ed ((tm, gyroY, bn, rl) # rest) =
     (case OnSample ed tm gyroY bn rl of
        None \<Rightarrow> ([], None)
      | Some (ed', published) \<Rightarrow>
          (case OnSamples ed' rest of
             (evs, final) \<Rightarrow>
               ((case published of None \<Rightarrow> evs | Some evt \<Rightarrow> evt # evs), final)))"

text \<open>An event's timestamp in seconds.\<close>

definition eventSeconds :: "Event \<Rightarrow> real" where
  "eventSeconds evt = real_of_int (Timestamp evt) / 10 ^ 9"

section \<open>Bayesian quality model (boomsense_sensor/bayesian.go)\<close>

text \<open>
  Here too a \<open>float64\<close> is a real number. A division whose divisor is zero yields an
  infinity or NaN in Go and has no value in this model: \<open>fdiv\<close> is \<open>None\<close> there, as
  is every computation that panics on an index.
\<close>

definition fdiv :: "real \<Rightarrow> real \<Rightarrow> real option" where
  "fdiv a b = (if b = 0 then None else Some (a / b))"

record BayesianQA =
  d :: int
  mu :: "real list"
  vr :: "real list"

text \<open>\<open>make([]float64, d)\<close> panics on a negative length.\<close>

definition NewBayesianQA :: "int \<Rightarrow> real \<Rightarrow> BayesianQA option" where
  "NewBayesianQA n sigma0 =
     (if n < 0 then None
      else Some \<lparr>d = n, mu = replicate (nat n) 0,
                  vr = replicate (nat n) (sigma0 * sigma0)\<rparr>)"

definition sigmoid :: "real \<Rightarrow> real" where
  "sigmoid z = (let z = max (- 60) (min 60 z) in 1 / (1 + exp (- z)))"

text \<open>The forward pass of \<open>Update\<close>: \<open>for i := 0; i < bq.d; i++ { z += bq.mu[i] * x[i] }\<close>,
  from index \<open>i\<close> on.\<close>

function forward_loop :: "BayesianQA \<Rightarrow> real list \<Rightarrow> int \<Rightarrow> real \<Rightarrow> real option" where
  "forward_loop bq x i z =
     (if i < d bq then
        (case elem (mu bq) i of
           None \<Rightarrow> None
         | Some m \<Rightarrow>
             (case elem x i of
                None \<Rightarrow> None
              | Some xi \<Rightarrow> forward_loop bq x (i + 1) (z + m * xi)))
      else Some z)"
  by pat_completeness auto
termination
  by (relation "measure (\<lambda>(bq, x, i, z). nat (d bq - i))") auto

declare forward_loop.simps [simp del]

text \<open>The body of the second loop of \<open>Update\<close>, for component \<open>i\<close>: the new
  \<open>mu[i]\<close> and the new \<open>vr[i]\<close>.\<close>

definition update_component ::
    "BayesianQA \<Rightarrow> real list \<Rightarrow> real \<Rightarrow> real \<Rightarrow> int \<Rightarrow> (real \<times> real) option" where
  "update_component bq x y p i = do {
     xi \<leftarrow> elem x i;
     let g = (y - p) * xi;
     v \<leftarrow> elem (vr bq) i;
     r \<leftarrow> fdiv 1 v;
     let h = p * (1 - p) * xi * xi + r;
     step \<leftarrow> fdiv g h;
     m \<leftarrow> elem (mu bq) i;
     v' \<leftarrow> fdiv 1 h;
     Some (m + step, v')
   }"

function update_loop :: "BayesianQA \<Rightarrow> real list \<Rightarrow> real \<Rightarrow> real \<Rightarrow> int \<Rightarrow> BayesianQA option" where
  "update_loop bq x y p i =
     (if i < d bq then
        (case update_component bq x y p i of
           None \<Rightarrow> None
         | Some (m', v') \<Rightarrow>
             update_loop (bq\<lparr>mu := (mu bq)[nat i := m'], vr := (vr bq)[nat i := v']\<rparr>)
               x y p (i + 1))
      else Some bq)"
  by pat_completeness auto
termination
  by (relation "measure (\<lambda>(bq, x, y, p, i). nat (d bq - i))") auto

declare update_loop.simps [simp del]

text \<open>The loop over the iterations, \<open>for iter := 0; iter < iters; iter++\<close>.\<close>

function iterations :: "BayesianQA \<Rightarrow> real list \<Rightarrow> real \<Rightarrow> int \<Rightarrow> int \<Rightarrow> BayesianQA option" where
  "iterations bq x y iters iter =
     (if iter < iters then
        (case forward_loop bq x 0 0 of
           None \<Rightarrow> None
         | Some z \<Rightarrow>
             (case update_loop bq x y (sigmoid z) 0 of
                None \<Rightarrow> None
              | Some bq' \<Rightarrow> iterations bq' x y iters (iter + 1)))
      else Some bq)"
  by pat_completeness auto
termination
  by (relation "measure (\<lambda>(bq, x, y, iters, iter). nat (iters - iter))") auto

declare iterations.simps [simp del]

definition Update :: "BayesianQA \<Rightarrow> real list \<Rightarrow> real \<Rightarrow> int \<Rightarrow> BayesianQA option" where
  "Update bq x y iters = (if len x \<noteq> d bq then Some bq else iterations bq x y iters 0)"

text \<open>A sequence of \<open>Update\<close> calls, each given as \<open>(x, y, iters)\<close>.\<close>

fun Updates :: "BayesianQA \<Rightarrow> (real list \<times> real \<times> int) list \<Rightarrow> BayesianQA option" where
  "Updates bq [] = Some bq"
| "Updates bq ((x, y, iters) # calls) =
     (case Update bq x y iters of None \<Rightarrow> None | Some bq' \<Rightarrow> Updates bq' calls)"

section \<open>Collector pipeline (collector.go)\<close>

text \<open>The fields of \<open>nmea.Config\<close> that size the pipeline.\<close>

record nmea_Config =
  BufferSize :: int
  DecoderWorkers :: int
  QueueSize :: int
  EnableCSV :: bool

text \<open>
  The collector's state as the workers see it. A buffered channel is the list of the
  items queued in it (oldest first), with \<open>QueueSize\<close> as its capacity; the \<open>done\<close>
  channel is the flag \<open>doneClosed\<close>; \<open>buffer\<close> and \<open>csvWriter\<close> are \<open>None\<close> for a
  \<open>nil\<close> interface, and the CSV writer is the list of messages handed to
  \<open>WriteDecoded\<close>.
\<close>

record Collector =
  config :: nmea_Config
  decoder :: Decoder
  buffer :: "RingBuffer option"
  csvWriter :: "DecodedMessage list option"
  stats :: Statistics
  rawFrames :: "RawFrame list"
  decodedData :: "DecodedMessage list"
  doneClosed :: bool

text \<open>
  One pass of \<open>decodeWorker\<close>'s loop for a frame received from \<open>rawFrames\<close>: decode,
  build the message, record statistics (\<open>now\<close> is the clock reading of
  \<open>RecordMessage\<close>), then the \<open>select\<close>: send to \<open>decodedData\<close> when it has room, return
  when \<open>done\<close> is closed, otherwise (\<open>default\<close>) drop the message. When both the send
  and \<open>done\<close> are ready Go chooses one at random; \<open>pick_done\<close> is that choice. The
  result is the new state and whether the worker keeps running; \<open>None\<close> is a panic of the
  decoder.
\<close>

definition decodeWorker_frame ::
    "bool \<Rightarrow> int \<Rightarrow> Collector \<Rightarrow> RawFrame \<Rightarrow> (Collector \<times> bool) option" where
  "decodeWorker_frame pick_done now c frame =
     (case Decode (decoder c) (RawFrame.PGN frame) (Data frame) of
        None \<Rightarrow> None
      | Some (fieldMap, err) \<Rightarrow>
          (let decoded =
                 \<lparr>DecodedMessage.Timestamp = RawFrame.Timestamp frame,
                  PGN = RawFrame.PGN frame,
                  PGNName = GetPGNName (RawFrame.PGN frame),
                  Source = RawFrame.Source frame,
                  Measurement = GetMeasurementType (RawFrame.PGN frame),
                  Fields = fieldMap,
                  Raw = Data frame\<rparr>;
               success =
                 (err = None \<and> (case fieldMap of None \<Rightarrow> False | Some m \<Rightarrow> m \<noteq> Map.empty));
               c = c\<lparr>stats := RecordMessage (stats c) now (RawFrame.PGN frame)
                                   (Measurement decoded) success\<rparr>
           in if len (decodedData c) < QueueSize (config c) \<and> \<not> (doneClosed c \<and> pick_done)
              then Some (c\<lparr>decodedData := decodedData c @ [decoded]\<rparr>, True)
              else if doneClosed c then Some (c, False)
              else Some (c, True)))"

text \<open>
  One pass of \<open>storageWorker\<close>'s loop: receive the oldest queued message (with an
  empty queue the worker waits and nothing changes), copy it field by field, push it to
  the ring buffer and hand it to the CSV writer, each when present. \<open>None\<close> is a panic
  of \<open>Push\<close>.
\<close>

definition storageWorker_step :: "Collector \<Rightarrow> Collector option" where
  "storageWorker_step c =
     (case decodedData c of
        [] \<Rightarrow> Some c
      | msg # rest \<Rightarrow>
          (let c = c\<lparr>decodedData := rest\<rparr>;
               storageMsg =
                 \<lparr>DecodedMessage.Timestamp = DecodedMessage.Timestamp msg,
                  PGN = DecodedMessage.PGN msg,
                  PGNName = PGNName msg,
                  Source = DecodedMessage.Source msg,
                  Measurement = Measurement msg,
                  Fields = Fields msg,
                  Raw = Raw msg\<rparr>
           in case (case Collector.buffer c of
                      None \<Rightarrow> Some None
                    | Some rb \<Rightarrow> map_option Some (Push storageMsg rb)) of
                None \<Rightarrow> None
              | Some b \<Rightarrow>
                  Some (c\<lparr>buffer := b,
                          csvWriter := map_option (\<lambda>rows. rows @ [storageMsg]) (csvWriter c)\<rparr>)))"

text \<open>\<open>n\<close> passes of the storage worker's loop.\<close>

fun storageWorker_steps :: "nat \<Rightarrow> Collector \<Rightarrow> Collector option" where
  "storageWorker_steps 0 c = Some c"
| "storageWorker_steps (Suc n) c =
     (case storageWorker_step c of None \<Rightarrow> None | Some c' \<Rightarrow> storageWorker_steps n c')"

subsection \<open>Auxiliary notions for the mapper and the pipeline\<close>

text \<open>Two frames a boat at rest in a current produces: COG and SOG with a speed over
  ground of zero, and speed through water of 1.00 m/s; with the field maps their decoders
  return and the messages the pipeline builds from them.\<close>

definition sogFrameData :: "byte list" where
  "sogFrameData = [0x00, 0x00, 0x00, 0x00, 0x00, 0xFF, 0xFF, 0xFF]"

definition stwFrameData :: "byte list" where
  "stwFrameData = [0x00, 0x64, 0x00, 0xFF, 0xFF, 0xFF, 0xFF]"

definition sogFields :: fields where
  "sogFields = [''sid'' \<mapsto> U8 0, ''cog_rad'' \<mapsto> F64 0, ''cog_deg'' \<mapsto> F64 0,
                ''sog_ms'' \<mapsto> F64 0, ''sog_kts'' \<mapsto> F64 0]"

definition stwFields :: fields where
  "stwFields = [''sid'' \<mapsto> U8 0, ''water_speed_ms'' \<mapsto> F64 1,
                ''water_speed_kts'' \<mapsto> F64 1.94384]"

definition sogMessage :: DecodedMessage where
  "sogMessage = zeroMessage\<lparr>PGN := 129026, Fields := Some sogFields\<rparr>"

definition stwMessage :: DecodedMessage where
  "stwMessage = zeroMessage\<lparr>PGN := 128259, Fields := Some stwFields\<rparr>"

text \<open>The message \<open>decodeWorker\<close> builds from a frame whose decode returned a
  \<open>nil\<close> map.\<close>

definition built :: "RawFrame \<Rightarrow> DecodedMessage" where
  "built frame =
     \<lparr>DecodedMessage.Timestamp = RawFrame.Timestamp frame,
      PGN = RawFrame.PGN frame,
      PGNName = GetPGNName (RawFrame.PGN frame),
      Source = RawFrame.Source frame,
      Measurement = GetMeasurementType (RawFrame.PGN frame),
      Fields = None,
      Raw = Data frame\<rparr>"

text \<open>A frame of PGN 59904 (ISO request), which has no handler, and a collector that
  has just started with a buffer of capacity 3.\<close>

definition missFrame :: RawFrame where
  "missFrame =
     \<lparr>RawFrame.Timestamp = 1700000000000000000, Topic = ''boats/esp32s3-dev01/raw'',
      ID = 0x18EAFF23, Priority = 6, DP = 0, PF = 0xEA, PS = 0xFF,
      Source = 0x23, Dest = 0xFF, PGN = 59904, Length = 3,
      Data = [0x00, 0xEE, 0x00]\<rparr>"

definition idleCollector :: "RingBuffer \<Rightarrow> Collector" where
  "idleCollector rb =
     \<lparr>config = \<lparr>BufferSize = 3, DecoderWorkers = 4, QueueSize = 1000, EnableCSV = False\<rparr>,
      decoder = NewDecoder,
      buffer = Some rb,
      csvWriter = None,
      stats = NewStatistics 0 0,
      rawFrames = [],
      decodedData = [],
      doneClosed = False\<rparr>"

subsection \<open>Auxiliary notions for the event detector\<close>

text \<open>The last \<open>k\<close> elements of a list, the mean of a list, and the largest
  \<open>|x - target|\<close> over a list (0 for the empty list).\<close>

definition lastn :: "nat \<Rightarrow> 'a list \<Rightarrow> 'a list" where
  "lastn k xs = drop (length xs - k) xs"

definition mean :: "real list \<Rightarrow> real" where
  "mean xs = sum_list xs / real (length xs)"

definition max_dev :: "real \<Rightarrow> real list \<Rightarrow> real" where
  "max_dev target xs = fold (\<lambda>x m. max \<bar>x - target\<bar> m) xs 0"

text \<open>The overshoot computed from the last \<open>nTail\<close> values (their mean is the
  target) and the last \<open>nThird\<close> values (the largest deviation from the target).\<close>

definition overshoot_with :: "nat \<Rightarrow> nat \<Rightarrow> real list \<Rightarrow> real" where
  "overshoot_with nTail nThird bn =
     (let tail = mean (lastn nTail bn);
          m = max_dev tail (lastn nThird bn)
      in max 0 (m - 0.05))"

text \<open>The overshoot as the specification words it: the last quarter and the last
  third of the series.\<close>

definition overshoot_spec :: "real list \<Rightarrow> real" where
  "overshoot_spec bn = overshoot_with (length bn div 4) (length bn div 3) bn"

text \<open>
  A detector as \<open>NewEventDetector\<close> returns it for the default configuration, and three
  sample sequences (time in nanoseconds, gyro rate, boom position, roll): two crash gybes
  3.2 s apart with a third boom swing 0.1 s after the first; a slow tack of twelve samples
  whose roll drops at the last one; and a slow tack of four samples.
\<close>

definition freshDetector :: EventDetector where
  "freshDetector = \<lparr>EventDetector.config = DefaultConfig, buffer = [], maxBufferSize = 600,
                     lastEventTime = - (10 ^ 9)\<rparr>"

definition gybeRun :: "(int \<times> real \<times> real option \<times> real option) list" where
  "gybeRun =
     [(100000000000, 130, Some 0.7, Some 5),
      (100100000000, 130, Some (- 0.7), Some 5),
      (100200000000, 130, Some 0.7, Some 5),
      (103200000000, 130, Some 0.7, Some 5),
      (103300000000, 130, Some (- 0.7), Some 5)]"

definition tackRun :: "(int \<times> real \<times> real option \<times> real option) list" where
  "tackRun =
     [(100000000000, 16, Some 0.6, Some 15),
      (100250000000, 16, Some 0.6, Some 15),
      (100500000000, 16, Some 0.6, Some 15),
      (100750000000, 16, Some 0.6, Some 15),
      (101000000000, 16, Some 0.6, Some 15),
      (101250000000, 16, Some 0.6, Some 15),
      (101500000000, 16, Some 0.6, Some 15),
      (101750000000, 16, Some 0.5, Some 15),
      (102000000000, 16, Some (- 0.5), Some 15),
      (102250000000, 16, Some (- 0.5), Some 15),
      (102500000000, 16, Some (- 0.5), Some 15),
      (102750000000, 16, Some (- 0.5), Some 0)]"

definition tackSeries :: "real list" where
  "tackSeries = [0.6, 0.6, 0.6, 0.6, 0.6, 0.6, 0.6, 0.5, - 0.5, - 0.5, - 0.5, - 0.5]"

definition shortTackRun :: "(int \<times> real \<times> real option \<times> real option) list" where
  "shortTackRun =
     [(100000000000, 16, Some 0.6, Some 15),
      (100500000000, 16, Some 0.2, Some 10),
      (101000000000, 16, Some (- 0.2), Some 0),
      (101500000000, 16, Some (- 0.6), Some (- 5))]"

text \<open>The detector after the twelve samples of \<open>tackRun\<close> have been appended to its
  buffer, and the roll values of that run.\<close>

definition tackState :: EventDetector where
  "tackState =
     freshDetector\<lparr>EventDetector.buffer :=
       map (\<lambda>(tm, g, bn, rl). \<lparr>t = real_of_int tm / 10 ^ 9, gyro = g, boomNorm = bn, roll = rl\<rparr>)
         tackRun\<rparr>"

definition tackRolls :: "real list" where
  "tackRolls = [15, 15, 15, 15, 15, 15, 15, 15, 15, 15, 15, 0]"

subsection \<open>Auxiliary notions for the Bayesian model\<close>

text \<open>A state whose vectors have the length \<open>d\<close>, and a state whose variances are
  all strictly positive.\<close>

definition well_formed :: "BayesianQA \<Rightarrow> bool" where
  "well_formed bq \<longleftrightarrow> 0 \<le> d bq \<and> len (mu bq) = d bq \<and> len (vr bq) = d bq"

definition positive_variance :: "BayesianQA \<Rightarrow> bool" where
  "positive_variance bq \<longleftrightarrow> list_all (\<lambda>v. 0 < v) (vr bq)"

text \<open>The state \<open>NewBayesianQA 2 10\<close> returns.\<close>

definition priorQA :: BayesianQA where
  "priorQA = \<lparr>d = 2, mu = [0, 0], vr = [100, 100]\<rparr>"

section \<open>Properties\<close>

subsection \<open>Byte readers\<close>

text \<open>
  Claim C2. For a payload of length \<open>L\<close> and a reader of width \<open>w\<close> bytes, a read at
  any offset from \<open>L - w + 1\<close> through \<open>L\<close> returns the reader's "field absent"
  sentinel (all ones for the unsigned readers, the largest positive value for the signed
  ones) and does not panic: the result is \<open>Some\<close> sentinel, never the \<open>None\<close> of an
  out-of-range slice or index. The offsets of the range are at most \<open>L\<close>, so the Go
  additions \<open>offset + 1\<close>, \<open>offset + 3\<close>, \<open>offset + 7\<close> do not overflow there.
\<close>

theorem readers_sentinel_past_end:
  assumes "len payload - w + 1 \<le> offset" and "offset \<le> len payload"
  shows "(w = 1 \<longrightarrow> u8 payload offset = Some 0xFF \<and> i8 payload offset = Some 0x7F)
       \<and> (w = 2 \<longrightarrow> u16le payload offset = Some 0xFFFF \<and> i16le payload offset = Some 0x7FFF)
       \<and> (w = 4 \<longrightarrow> u32le payload offset = Some 0xFFFFFFFF
                    \<and> i32le payload offset = Some 0x7FFFFFFF)
       \<and> (w = 8 \<longrightarrow> i64le payload offset = Some 0x7FFFFFFFFFFFFFFF)"
  using assms
  by (auto simp: u8_def i8_def u16le_def i16le_def u32le_def i32le_def i64le_def)

theorem readers_sentinel_past_end_witness:
  "len [0x01, 0x02, 0x03 :: byte] - 1 + 1 \<le> 3 \<and> len [0x01, 0x02, 0x03 :: byte] - 2 + 1 \<le> 2
   \<and> len [0x01, 0x02, 0x03 :: byte] - 4 + 1 \<le> 0
   \<and> len [0x01, 0x02, 0x03 :: byte] - 8 + 1 \<le> -4
   \<and> u8 [0x01, 0x02, 0x03] 3 = Some 0xFF \<and> i8 [0x01, 0x02, 0x03] 3 = Some 0x7F
   \<and> u16le [0x01, 0x02, 0x03] 2 = Some 0xFFFF \<and> i16le [0x01, 0x02, 0x03] 2 = Some 0x7FFF
   \<and> u32le [0x01, 0x02, 0x03] 0 = Some 0xFFFFFFFF
   \<and> i32le [0x01, 0x02, 0x03] 0 = Some 0x7FFFFFFF
   \<and> i64le [0x01, 0x02, 0x03] (-4) = Some 0x7FFFFFFFFFFFFFFF"
  using readers_sentinel_past_end [of "[0x01, 0x02, 0x03]" 1 3]
    readers_sentinel_past_end [of "[0x01, 0x02, 0x03]" 2 2]
    readers_sentinel_past_end [of "[0x01, 0x02, 0x03]" 4 0]
    readers_sentinel_past_end [of "[0x01, 0x02, 0x03]" 8 "-4"]
  by (simp add: len_def)

subsection \<open>PGN derivation\<close>

text \<open>
  Claim C4. For all \<open>dp\<close>, \<open>pf\<close>, \<open>ps\<close>: when \<open>pf < 240\<close>, \<open>PGNFromParts dp pf ps\<close>
  is \<open>((dp & 1) << 16) | ((pf & 0xFF) << 8)\<close>, hence the same as
  \<open>PGNFromParts dp pf 0\<close> for every \<open>ps\<close>; when \<open>pf \<ge> 240\<close> it is that base OR-ed
  with \<open>ps & 0xFF\<close>. In particular \<open>(0, 0xF0, 0x1A)\<close> gives 61466 and
  \<open>(1, 0xEF, 0x12)\<close> gives 126720.
\<close>

theorem PGNFromParts_pdu:
  "(pf < 240 \<longrightarrow>
      PGNFromParts dp pf ps = push_bit 16 (uint (dp AND 1)) OR push_bit 8 (uint (pf AND 0xFF))
      \<and> PGNFromParts dp pf ps = PGNFromParts dp pf 0)
   \<and> (240 \<le> pf \<longrightarrow>
      PGNFromParts dp pf ps =
        (push_bit 16 (uint (dp AND 1)) OR push_bit 8 (uint (pf AND 0xFF)))
          OR uint (ps AND 0xFF))
   \<and> PGNFromParts 0 0xF0 0x1A = 61466
   \<and> PGNFromParts 1 0xEF 0x12 = 126720"
  by (auto simp: PGNFromParts_def Let_def)

theorem PGNFromParts_pdu_witness:
  "(0xEF :: byte) < 240 \<and> PGNFromParts 1 0xEF 0x12 = PGNFromParts 1 0xEF 0
   \<and> PGNFromParts 1 0xEF 0x12 = 126720
   \<and> (240 :: byte) \<le> 0xF0 \<and> PGNFromParts 0 0xF0 0x1A = 61440 OR 26"
  using PGNFromParts_pdu [of "0xEF" 1 "0x12"] PGNFromParts_pdu [of "0xF0" 0 "0x1A"]
  by simp

subsection \<open>Ring buffer\<close>

lemma Pushes_append:
  "Pushes rb (xs @ ys) = (case Pushes rb xs of None \<Rightarrow> None | Some rb' \<Rightarrow> Pushes rb' ys)"
  by (induction xs arbitrary: rb) (auto split: option.splits)

lemma mod_distinct_window:
  fixes k N C :: int
  assumes "0 < C" "k < N" "N - C < k"
  shows "k mod C \<noteq> N mod C"
proof
  assume "k mod C = N mod C"
  then have "C dvd (N - k)" by (metis mod_eq_dvd_iff)
  moreover have "0 < N - k" "N - k < C" using assms by auto
  ultimately show False by (meson zdvd_not_zless)
qed

lemma smod_nonneg:
  fixes a b :: int
  assumes "0 \<le> a" "0 < b"
  shows "a smod b = a mod b"
  using assms by (cases "a = 0") (simp_all add: smod_int_alt_def sgn_if)

lemma Push_inv:
  assumes C: "0 < C" and inv: "rb_inv C msgs rb"
  shows "\<exists>rb'. Push x rb = Some rb' \<and> rb_inv C (msgs @ [x]) rb'"
proof -
  let ?N = "len msgs"
  have cap: "capacity rb = C" and ld: "length (data rb) = nat C"
    and hd: "head rb = ?N mod C" and sz: "size_rb rb = min ?N C"
    and dat: "\<And>k. k < length msgs \<Longrightarrow> ?N - C \<le> int k \<Longrightarrow> data rb ! nat (int k mod C) = msgs ! k"
    and lat: "\<And>p. latestByPGN rb p = find (\<lambda>m. PGN m = p) (rev msgs)"
    using inv unfolding rb_inv_def by auto
  have h0: "0 \<le> head rb" "head rb < C" using C hd by auto
  have guard: "0 \<le> head rb \<and> head rb < len (data rb)"
    using h0 ld C by (simp add: len_def)
  have rem: "go_rem (head rb + 1) C = Some ((?N + 1) mod C)"
  proof -
    have "(head rb + 1) smod C = (head rb + 1) mod C"
      using h0 C by (simp add: smod_nonneg)
    also have "\<dots> = (?N + 1) mod C" unfolding hd by (simp add: mod_add_left_eq)
    finally show ?thesis using C by (simp add: go_rem_def)
  qed
  define rb' where "rb' = rb\<lparr>data := (data rb)[nat (head rb) := x], head := (?N + 1) mod C,
      size_rb := (if size_rb rb < C then size_rb rb + 1 else size_rb rb),
      latestByPGN := (latestByPGN rb)(PGN x \<mapsto> x)\<rparr>"
  have push: "Push x rb = Some rb'"
    using guard rem by (simp add: Push_def Let_def cap rb'_def)
  have N1: "len (msgs @ [x]) = ?N + 1" by (simp add: len_def)
  have "rb_inv C (msgs @ [x]) rb'"
    unfolding rb_inv_def
  proof (intro conjI allI impI)
    show "capacity rb' = C" by (simp add: rb'_def cap)
    show "length (data rb') = nat C" by (simp add: rb'_def ld)
    show "head rb' = len (msgs @ [x]) mod C" by (simp add: rb'_def N1)
    show "size_rb rb' = min (len (msgs @ [x])) C"
      using sz by (auto simp: rb'_def N1 min_def)
    show "latestByPGN rb' p = find (\<lambda>m. PGN m = p) (rev (msgs @ [x]))" for p
      by (simp add: rb'_def lat)
    show "data rb' ! nat (int k mod C) = (msgs @ [x]) ! k"
      if "k < length (msgs @ [x]) \<and> len (msgs @ [x]) - C \<le> int k" for k
    proof (cases "k = length msgs")
      case True
      have "nat (int k mod C) = nat (head rb)" using True hd by (simp add: len_def)
      moreover have "nat (head rb) < length (data rb)" using h0 ld by simp
      ultimately show ?thesis using True by (simp add: rb'_def)
    next
      case False
      then have kl: "k < length msgs" using that by simp
      have w: "?N - C < int k" using that by (simp add: len_def)
      have "int k mod C \<noteq> ?N mod C"
        using mod_distinct_window [OF C _ w] kl by (simp add: len_def)
      moreover have "0 \<le> int k mod C" "0 \<le> ?N mod C" using C by simp_all
      ultimately have ne: "nat (int k mod C) \<noteq> nat (head rb)" unfolding hd by simp
      have "data rb ! nat (int k mod C) = msgs ! k" using dat [OF kl] w by simp
      then show ?thesis using ne kl by (simp add: rb'_def nth_append)
    qed
  qed
  with push show ?thesis by blast
qed

lemma NewRingBuffer_inv:
  assumes "NewRingBuffer C = Some rb0"
  shows "0 \<le> C \<and> rb_inv C [] rb0"
  using assms by (auto simp: NewRingBuffer_def rb_inv_def len_def split: if_splits)

lemma Pushes_inv:
  assumes "0 < C" "rb_inv C [] rb0"
  shows "\<exists>rb. Pushes rb0 msgs = Some rb \<and> rb_inv C msgs rb"
proof (induction msgs rule: rev_induct)
  case Nil
  then show ?case using assms by simp
next
  case (snoc x xs)
  then obtain rb where rb: "Pushes rb0 xs = Some rb" "rb_inv C xs rb" by blast
  from Push_inv [OF assms(1) rb(2), of x] obtain rb' where
    "Push x rb = Some rb'" "rb_inv C (xs @ [x]) rb'" by blast
  then show ?case using rb by (simp add: Pushes_append)
qed

lemma Pushes_zero_capacity:
  assumes "NewRingBuffer 0 = Some rb0"
  shows "Pushes rb0 msgs = (if msgs = [] then Some rb0 else None)"
  using assms by (cases msgs) (auto simp: NewRingBuffer_def Push_def len_def)

lemma GetRecent_loop_done: "n \<le> i \<Longrightarrow> GetRecent_loop rb n i = Some []"
  by (subst GetRecent_loop.simps) simp

lemma GetRecent_loop_inv:
  assumes C: "0 < C" and inv: "rb_inv C msgs rb"
    and "0 \<le> i" "i \<le> n" "n \<le> size_rb rb"
  shows "GetRecent_loop rb n i = Some (map (\<lambda>j. rev msgs ! j) [nat i..<nat n])"
  using assms(3-)
proof (induction "nat (n - i)" arbitrary: i)
  case 0
  then have "i = n" by simp
  then show ?case by (simp add: GetRecent_loop_done)
next
  case (Suc m)
  let ?N = "len msgs"
  have cap: "capacity rb = C" and ld: "length (data rb) = nat C"
    and hd: "head rb = ?N mod C" and sz: "size_rb rb = min ?N C"
    and dat: "\<And>k. k < length msgs \<Longrightarrow> ?N - C \<le> int k \<Longrightarrow> data rb ! nat (int k mod C) = msgs ! k"
    using inv unfolding rb_inv_def by auto
  have lt: "i < n" using Suc.hyps(2) by linarith
  have iN: "i < ?N" "i < C" using lt Suc.prems sz by auto
  define k where "k = nat (?N - 1 - i)"
  have k: "int k = ?N - 1 - i" "k < length msgs" using iN Suc.prems by (auto simp: k_def len_def)
  have nonneg: "0 \<le> head rb - 1 - i + C" using hd C iN
    by (smt (verit) pos_mod_sign)
  have "(head rb - 1 - i + C) smod C = (head rb - 1 - i + C) mod C"
    using nonneg C by (simp add: smod_nonneg)
  also have "\<dots> = (?N - 1 - i) mod C"
    unfolding hd by (metis (no_types, opaque_lifting) add.commute diff_diff_eq mod_add_self2 mod_diff_left_eq)
  finally have rem: "go_rem (head rb - 1 - i + capacity rb) (capacity rb) = Some (int k mod C)"
    using C by (simp add: go_rem_def cap k)
  have idx: "0 \<le> int k mod C" "int k mod C < len (data rb)" using C ld by (simp_all add: len_def)
  have "data rb ! nat (int k mod C) = msgs ! k" using dat [OF k(2)] k(1) iN by simp
  also have "\<dots> = rev msgs ! nat i"
    using k iN Suc.prems by (simp add: rev_nth k_def len_def nat_diff_distrib)
  finally have el: "elem (data rb) (int k mod C) = Some (rev msgs ! nat i)"
    using idx by (simp add: elem_def)
  have IH: "GetRecent_loop rb n (i + 1) = Some (map (\<lambda>j. rev msgs ! j) [nat (i + 1)..<nat n])"
    using Suc.hyps(1) [of "i + 1"] Suc.hyps(2) Suc.prems lt by simp
  have up: "[nat i..<nat n] = nat i # [nat (i + 1)..<nat n]"
    using lt Suc.prems by (simp add: upt_conv_Cons nat_add_distrib)
  show ?case
    by (subst GetRecent_loop.simps) (simp add: lt rem el IH up)
qed


lemma take_as_map_nth: "m \<le> length xs \<Longrightarrow> map (\<lambda>j. xs ! j) [0..<m] = take m xs"
  by (simp add: list_eq_iff_nth_eq)

lemma GetRecent_inv:
  assumes C: "0 < C" and inv: "rb_inv C msgs rb"
  shows "GetRecent n rb =
           (if n < 0 then None else Some (take (nat (min n (size_rb rb))) (rev msgs)))"
proof (cases "n < 0")
  case True
  have "0 \<le> size_rb rb" using inv C by (simp add: rb_inv_def len_def)
  then show ?thesis using True by (simp add: GetRecent_def Let_def)
next
  case False
  define n' where "n' = (if n > size_rb rb then size_rb rb else n)"
  have sz: "size_rb rb = min (len msgs) C" using inv by (simp add: rb_inv_def)
  have n': "0 \<le> n'" "n' \<le> size_rb rb" "n' = min n (size_rb rb)"
    using False sz C by (auto simp: n'_def len_def)
  have "nat n' \<le> length (rev msgs)" using n' sz by (simp add: len_def)
  then have "map (\<lambda>j. rev msgs ! j) [nat 0..<nat n'] = take (nat n') (rev msgs)"
    by (simp add: take_as_map_nth)
  then have "GetRecent_loop rb n' 0 = Some (take (nat n') (rev msgs))"
    using GetRecent_loop_inv [OF C inv, of 0 n'] n' by simp
  then show ?thesis using False n' by (simp add: GetRecent_def Let_def n'_def)
qed

text \<open>
  Claim C1. On a ring buffer of capacity \<open>C\<close>, a sequence of \<open>Push\<close> calls completes
  exactly when \<open>C > 0\<close> or the sequence is empty (with \<open>C = 0\<close> the first \<open>Push\<close>
  panics on its index expression). Whenever it completes, the size is
  \<open>min (number of pushes) C\<close>; \<open>GetRecent n\<close> returns the \<open>min n size\<close> most recently
  pushed messages, newest first (and panics for a negative \<open>n\<close>); and
  \<open>GetLatestByPGN p\<close> is the most recently pushed message with PGN \<open>p\<close>, absent when
  none was pushed. Scenario S4 is the instance \<open>C = 3\<close> with pushes A(1), B(2), C(1), D(3).
\<close>

theorem ring_buffer_pushes:
  assumes new: "NewRingBuffer C = Some rb0"
  shows "(Pushes rb0 msgs \<noteq> None \<longleftrightarrow> 0 < C \<or> msgs = [])
       \<and> (\<forall>rb. Pushes rb0 msgs = Some rb \<longrightarrow>
             Size rb = min (len msgs) C
             \<and> GetRecent n rb =
                 (if n < 0 then None else Some (take (nat (min n (Size rb))) (rev msgs)))
             \<and> GetLatestByPGN p rb = find (\<lambda>m. PGN m = p) (rev msgs))"
proof (cases "0 < C")
  case True
  from NewRingBuffer_inv [OF new] have inv0: "rb_inv C [] rb0" by simp
  from Pushes_inv [OF True inv0, of msgs] obtain rb where
    rb: "Pushes rb0 msgs = Some rb" "rb_inv C msgs rb" by blast
  have "Size rb = min (len msgs) C" using rb(2) by (simp add: Size_def rb_inv_def)
  moreover have "GetLatestByPGN p rb = find (\<lambda>m. PGN m = p) (rev msgs)"
    using rb(2) by (simp add: GetLatestByPGN_def rb_inv_def)
  moreover note GetRecent_inv [OF True rb(2), of n]
  ultimately show ?thesis using True rb(1) by (simp add: Size_def)
next
  case False
  with NewRingBuffer_inv [OF new] have C0: "C = 0" by simp
  have P: "Pushes rb0 msgs = (if msgs = [] then Some rb0 else None)"
    using Pushes_zero_capacity new C0 by simp
  have "GetRecent n rb0 = (if n < 0 then None else Some [])"
    using new C0 by (auto simp: NewRingBuffer_def GetRecent_def Let_def GetRecent_loop_done)
  moreover have "Size rb0 = 0" "GetLatestByPGN p rb0 = None"
    using new C0 by (auto simp: NewRingBuffer_def Size_def GetLatestByPGN_def)
  ultimately show ?thesis using P C0 by (auto simp: len_def)
qed


theorem ring_buffer_pushes_witness:
  "\<exists>rb0 rb. NewRingBuffer 3 = Some rb0
     \<and> Pushes rb0 [msgA, msgB, msgC, msgD] = Some rb
     \<and> Size rb = 3 \<and> GetRecent 2 rb = Some [msgD, msgC]
     \<and> GetLatestByPGN 1 rb = Some msgC"
proof -
  obtain rb0 where new: "NewRingBuffer 3 = Some rb0" by (simp add: NewRingBuffer_def)
  note inst = ring_buffer_pushes [OF new, of "[msgA, msgB, msgC, msgD]" 2 1]
  from inst obtain rb where rb: "Pushes rb0 [msgA, msgB, msgC, msgD] = Some rb" by auto
  with inst have "Size rb = 3" "GetRecent 2 rb = Some [msgD, msgC]"
    "GetLatestByPGN 1 rb = Some msgC"
    by (simp_all add: len_def msgA_def msgB_def msgC_def msgD_def)
  with new rb show ?thesis by blast
qed

subsection \<open>Statistics\<close>

lemma RecordMessages_counters:
  "MessagesProcessed (RecordMessages s calls) = MessagesProcessed s + of_nat (length calls)
   \<and> DecodeSuccesses (RecordMessages s calls)
       = DecodeSuccesses s + of_nat (length (filter (\<lambda>c. snd (snd (snd c))) calls))
   \<and> DecodeFailures (RecordMessages s calls)
       = DecodeFailures s + of_nat (length (filter (\<lambda>c. \<not> snd (snd (snd c))) calls))"
proof (induction calls arbitrary: s)
  case Nil
  then show ?case by simp
next
  case (Cons c calls)
  obtain now pgn m ok where c: "c = (now, pgn, m, ok)" by (cases c) auto
  show ?case
    unfolding c using Cons.IH [of "RecordMessage s now pgn m ok"]
    by (cases ok) (simp_all add: RecordMessage_def Let_def)
qed

lemma sint_of_nat_64: "n < 2 ^ 63 \<Longrightarrow> sint (of_nat n :: 64 word) = int n"
proof -
  assume n: "n < 2 ^ 63"
  have "int n < 2 ^ 63" using n by (metis of_nat_less_iff of_nat_numeral of_nat_power)
  then have "signed_take_bit 63 (int n) = int n"
    by (intro signed_take_bit_int_eq_self) auto
  then show ?thesis by (simp add: signed_of_nat)
qed

text \<open>
  Claim C10. After any sequence of \<open>RecordMessage\<close> calls on a fresh \<open>Statistics\<close>
  value, \<open>MessagesProcessed = DecodeSuccesses + DecodeFailures\<close>, and the
  \<open>success_rate\<close> of \<open>GetSnapshot\<close> is \<open>DecodeSuccesses / MessagesProcessed \<times> 100\<close>,
  and 0 when no message has been processed; in terms of the calls, it is the share of
  calls with \<open>success = true\<close>, in percent. The counters are \<open>int64\<close>: the sum holds
  for every sequence, with wrap-around; the rate as long as fewer than \<open>2^63\<close> calls
  were made, so that the signed test \<open>MessagesProcessed > 0\<close> reads the true count.
\<close>

theorem statistics_counters:
  "MessagesProcessed (RecordMessages (NewStatistics n1 n2) calls)
     = DecodeSuccesses (RecordMessages (NewStatistics n1 n2) calls)
       + DecodeFailures (RecordMessages (NewStatistics n1 n2) calls)
   \<and> (length calls < 2 ^ 63 \<longrightarrow>
        GetSnapshot (RecordMessages (NewStatistics n1 n2) calls) now ''success_rate''
          = Some (F64
              (if MessagesProcessed (RecordMessages (NewStatistics n1 n2) calls) = 0 then 0
               else sfloat (DecodeSuccesses (RecordMessages (NewStatistics n1 n2) calls))
                      / sfloat (MessagesProcessed (RecordMessages (NewStatistics n1 n2) calls))
                      * 100))
        \<and> GetSnapshot (RecordMessages (NewStatistics n1 n2) calls) now ''success_rate''
            = Some (F64 (if calls = [] then 0
                         else real (length (filter (\<lambda>c. snd (snd (snd c))) calls))
                                / real (length calls) * 100)))"
proof -
  define s where "s = RecordMessages (NewStatistics n1 n2) calls"
  define k where "k = length (filter (\<lambda>c. snd (snd (snd c))) calls)"
  define f where "f = length (filter (\<lambda>c. \<not> snd (snd (snd c))) calls)"
  have c: "MessagesProcessed s = of_nat (length calls)" "DecodeSuccesses s = of_nat k"
    "DecodeFailures s = of_nat f"
    using RecordMessages_counters [of "NewStatistics n1 n2" calls]
    by (simp_all add: s_def k_def f_def NewStatistics_def)
  have kf: "k + f = length calls"
    unfolding k_def f_def by (rule sum_length_filter_compl)
  have sum: "MessagesProcessed s = DecodeSuccesses s + DecodeFailures s"
    unfolding c by (simp flip: kf)
  have rates: "GetSnapshot s now ''success_rate''
        = Some (F64 (if MessagesProcessed s = 0 then 0
                     else sfloat (DecodeSuccesses s) / sfloat (MessagesProcessed s) * 100))
      \<and> GetSnapshot s now ''success_rate''
        = Some (F64 (if calls = [] then 0 else real k / real (length calls) * 100))"
    if bound: "length calls < 2 ^ 63"
  proof -
    have kl: "k < 2 ^ 63" using kf bound by linarith
    have sm: "sint (MessagesProcessed s) = int (length calls)"
      unfolding c using bound by (rule sint_of_nat_64)
    have ss: "sint (DecodeSuccesses s) = int k"
      unfolding c using kl by (rule sint_of_nat_64)
    have pos: "0 <s MessagesProcessed s \<longleftrightarrow> calls \<noteq> []"
      by (simp add: word_sless_alt sm)
    have z: "MessagesProcessed s = 0 \<longleftrightarrow> calls = []"
      using sm by (metis length_0_conv of_nat_eq_0_iff sint_0 c(1) semiring_1_class.of_nat_0)
    have rate: "GetSnapshot s now ''success_rate''
        = Some (F64 (if calls = [] then 0 else real k / real (length calls) * 100))"
      by (simp add: GetSnapshot_def Let_def pos sfloat_def sm ss)
    have rate2: "GetSnapshot s now ''success_rate''
        = Some (F64 (if MessagesProcessed s = 0 then 0
                     else sfloat (DecodeSuccesses s) / sfloat (MessagesProcessed s) * 100))"
      unfolding rate z by (simp add: sfloat_def sm ss)
    show ?thesis using rate rate2 by simp
  qed
  show ?thesis using sum rates unfolding s_def k_def by blast
qed

theorem statistics_counters_witness:
  "length [(1 :: int, 130306 :: int, ''wind'', True), (2, 59904, ''nmea_general'', False)]
     < 2 ^ 63
   \<and> MessagesProcessed (RecordMessages (NewStatistics 0 0)
        [(1, 130306, ''wind'', True), (2, 59904, ''nmea_general'', False)]) = 2
   \<and> GetSnapshot (RecordMessages (NewStatistics 0 0)
        [(1, 130306, ''wind'', True), (2, 59904, ''nmea_general'', False)]) 5
        ''success_rate'' = Some (F64 50)"
  using statistics_counters
    [of 0 0 "[(1, 130306, ''wind'', True), (2, 59904, ''nmea_general'', False)]" 5]
  by (simp add: RecordMessage_def NewStatistics_def sfloat_def)

subsection \<open>Sentinel payloads\<close>

lemmas reader_defs =
  u8_def i8_def u16le_def i16le_def u32le_def i32le_def i64le_def subslice_def elem_def len_def

lemma decodePGN127257_sentinel:
  "decodePGN127257
       [sid, 0xFF, 0x7F, 0xFF, 0x7F, 0xFF, 0x7F]
     = Some (Some [''sid'' \<mapsto> U8 sid], None)"
  by (simp add: decodePGN127257_def reader_defs)

lemma decodePGN127251_sentinel:
  "decodePGN127251
       [sid, 0xFF, 0x7F]
     = Some (Some [''sid'' \<mapsto> U8 sid], None)"
  by (simp add: decodePGN127251_def reader_defs)

lemma decodePGN127251_sentinel_long:
  "decodePGN127251
       [sid, 0xFF, 0xFF, 0xFF, 0x7F, r5, r6, r7]
     = Some (Some [''sid'' \<mapsto> U8 sid], None)"
  by (simp add: decodePGN127251_def reader_defs)

lemma decodePGN130306_sentinel:
  "decodePGN130306
       [sid, 0xFF, 0xFF, 0xFF, 0xFF, ref]
     = Some (Some [''sid'' \<mapsto> U8 sid, ''wind_reference'' \<mapsto> U8 ref], None)"
  by (simp add: decodePGN130306_def reader_defs)

lemma decodePGN127250_sentinel:
  "decodePGN127250
       [sid, 0xFF, 0xFF, 0xFF, 0x7F, 0xFF, 0x7F, ref]
     = Some (Some [''sid'' \<mapsto> U8 sid, ''heading_reference'' \<mapsto> U8 ref], None)"
  by (simp add: decodePGN127250_def reader_defs)

lemma decodePGN129026_sentinel:
  "decodePGN129026
       [sid, 0xFF, 0xFF, 0xFF, 0xFF, r5, r6, r7]
     = Some (Some [''sid'' \<mapsto> U8 sid], None)"
  by (simp add: decodePGN129026_def reader_defs)

lemma decodePGN129025_sentinel:
  "decodePGN129025
       [0xFF, 0xFF, 0xFF, 0xFF, 0xFF, 0xFF, 0xFF, 0xFF]
     = Some (Some Map.empty, None)"
  by (simp add: decodePGN129025_def reader_defs)

lemma decodePGN129029_sentinel:
  "decodePGN129029
       [sid, 0xFF, 0xFF, 0xFF, 0xFF, 0xFF, 0xFF,
         0xFF, 0xFF, 0xFF, 0xFF, 0xFF, 0xFF, 0xFF, 0x7F,
         0xFF, 0xFF, 0xFF, 0xFF, 0xFF, 0xFF, 0xFF, 0x7F,
         0xFF, 0xFF, 0xFF, 0xFF, 0xFF, 0xFF, 0xFF, 0x7F,
         pack1, pack2, svs, 0xFF, 0x7F, 0xFF, 0x7F, 0xFF, 0xFF, 0xFF, 0x7F, refStations]
     = Some (Some [''sid'' \<mapsto> U8 sid, ''gnss_type'' \<mapsto> U8 (pack1 AND 0x0F),
                ''method'' \<mapsto> U8 (drop_bit 4 pack1 AND 0x0F),
                ''integrity'' \<mapsto> U8 (pack2 AND 3), ''satellites'' \<mapsto> U8 svs,
                ''reference_stations'' \<mapsto> U8 refStations], None)"
  by (simp add: decodePGN129029_def reader_defs)

lemma decodePGN128267_sentinel:
  "decodePGN128267
       [sid, 0xFF, 0xFF, 0xFF, 0xFF]
     = Some (Some [''sid'' \<mapsto> U8 sid], None)"
  by (simp add: decodePGN128267_def reader_defs)

lemma decodePGN128259_sentinel:
  "decodePGN128259
       [sid, 0xFF, 0xFF, 0xFF, 0xFF, r5, r6]
     = Some (Some [''sid'' \<mapsto> U8 sid], None)"
  by (simp add: decodePGN128259_def reader_defs)

lemma decodePGN128275_sentinel:
  "decodePGN128275
       [0xFF, 0xFF, 0xFF, 0xFF, 0xFF, 0xFF, 0xFF, 0xFF]
     = Some (Some Map.empty, None)"
  by (simp add: decodePGN128275_def reader_defs)

lemma decodePGN127245_sentinel:
  "decodePGN127245
       [inst, dir, 0xFF, 0x7F, 0xFF, 0x7F]
     = Some (Some [''rudder_instance'' \<mapsto> U8 inst, ''direction_order'' \<mapsto> U8 dir], None)"
  by (simp add: decodePGN127245_def reader_defs)

lemma decodePGN127237_sentinel:
  "decodePGN127237
       [b0, b1, b2, 0xFF, 0x7F, 0xFF, 0xFF, r7]
     = Some (Some [''rudder_limit_exceeded'' \<mapsto> U8 (drop_bit 6 b0 AND 3),
                ''off_heading_exceeded'' \<mapsto> U8 (drop_bit 4 b0 AND 3),
                ''off_track_exceeded'' \<mapsto> U8 (drop_bit 2 b0 AND 3),
                ''override'' \<mapsto> U8 (b0 AND 3),
                ''steering_mode'' \<mapsto> U8 (drop_bit 5 b1 AND 7),
                ''turn_mode'' \<mapsto> U8 (drop_bit 2 b1 AND 7),
                ''heading_reference'' \<mapsto> U8 ((b1 AND 3) OR push_bit 2 (drop_bit 7 b2 AND 1)),
                ''commanded_rudder_direction'' \<mapsto> U8 (b2 AND 7)], None)"
  by (simp add: decodePGN127237_def reader_defs)

lemma decodePGN129284_sentinel:
  "decodePGN129284
       [sid, 0xFF, 0xFF, 0xFF, 0xFF, flags, r6, r7]
     = Some (Some [''sid'' \<mapsto> U8 sid,
                ''bearing_reference'' \<mapsto> U8 (drop_bit 6 flags AND 3),
                ''perpendicular_crossed'' \<mapsto> U8 (drop_bit 4 flags AND 3),
                ''arrival_circle_entered'' \<mapsto> U8 (drop_bit 2 flags AND 3),
                ''calculation_type'' \<mapsto> U8 (flags AND 3)], None)"
  by (simp add: decodePGN129284_def reader_defs)

lemma decodePGN129540_sentinel:
  "decodePGN129540
       [sid, hdr, satsInView]
     = Some (Some [''sid'' \<mapsto> U8 sid, ''range_residual_mode'' \<mapsto> U8 (drop_bit 6 hdr AND 3),
                ''sats_in_view'' \<mapsto> U8 satsInView], None)"
  by (simp add: decodePGN129540_def reader_defs sat_loop.simps)

lemma decodePGN126992_sentinel:
  "decodePGN126992
       [sid, src, 0xFF, 0xFF, 0xFF, 0xFF, 0xFF, 0xFF]
     = Some (Some [''sid'' \<mapsto> U8 sid, ''time_source'' \<mapsto> U8 src], None)"
  by (simp add: decodePGN126992_def reader_defs)

lemma decodePGN127508_sentinel:
  "decodePGN127508
       [inst, 0xFF, 0xFF, 0xFF, 0x7F, 0xFF, 0xFF, sid]
     = Some (Some [''battery_instance'' \<mapsto> U8 inst, ''sid'' \<mapsto> U8 sid], None)"
  by (simp add: decodePGN127508_def reader_defs)

lemma decodePGN127489_sentinel:
  "decodePGN127489
       [inst, 0xFF, 0xFF, 0xFF, 0xFF, 0xFF, 0xFF, r7]
     = Some (Some [''engine_instance'' \<mapsto> U8 inst], None)"
  by (simp add: decodePGN127489_def reader_defs)

lemma decodePGN130310_sentinel:
  "decodePGN130310
       [sid, r1, r2, r3, 0xFF, 0xFF, 0xFF, 0xFF, 0xFF, 0xFF, 0xFF, 0xFF]
     = Some (Some [''sid'' \<mapsto> U8 sid], None)"
  by (simp add: decodePGN130310_def reader_defs)

lemma decodePGN130312_sentinel:
  "decodePGN130312
       [sid, inst, src, 0xFF, 0xFF, r5]
     = Some (Some [''sid'' \<mapsto> U8 sid, ''temperature_instance'' \<mapsto> U8 inst, ''temperature_source'' \<mapsto> U8 src], None)"
  by (simp add: decodePGN130312_def reader_defs)

lemma decodePGN130313_sentinel:
  "decodePGN130313
       [sid, inst, src, 0xFF, 0xFF, r5]
     = Some (Some [''sid'' \<mapsto> U8 sid, ''humidity_instance'' \<mapsto> U8 inst, ''humidity_source'' \<mapsto> U8 src], None)"
  by (simp add: decodePGN130313_def reader_defs)

text \<open>
  The same decoder on a payload of seven all-ones bytes: a signed field holding
  \<open>0xFFFF\<close> is the value \<open>-1\<close>, not the signed sentinel \<open>0x7FFF\<close>, and is emitted.
\<close>

lemma decodePGN127257_all_ones:
  "\<exists>m. decodePGN127257 [0xFF, 0xFF, 0xFF, 0xFF, 0xFF, 0xFF, 0xFF] = Some (Some m, None)
     \<and> m ''yaw_rad'' = Some (F64 (- 0.0001))
     \<and> m ''heel_angle'' = Some (F64 (- 0.0001 * 180 / pi))"
  by (simp add: decodePGN127257_def reader_defs sfloat_def)

text \<open>
  Claim C3. The registered decoders are the twenty of the handler table. For each of
  them, a payload of the minimum declared length in which every physical field holds its
  sentinel bit pattern (all ones in an unsigned field, \<open>0x7F\<close> in the top byte and
  \<open>0xFF\<close> below in a signed one, as the glossary defines the sentinel) decodes to a
  map that holds only the bytes emitted unconditionally: SID, instance, reference, source,
  the packed mode bits and, for the two GNSS messages, the satellite and reference-station
  count bytes. These bytes and the bytes no field reads are arbitrary.
  So \<open>decodePGN127257\<close> emits no yaw, pitch, roll or heel field on its 7-byte payload
  and \<open>decodePGN130306\<close> no wind speed or wind angle on its 6-byte payload. For PGN
  127251 both declared lengths, 3 and 8, are covered.
\<close>

theorem sentinel_payload_has_no_physical_fields:
  "dom (handlers NewDecoder) =
     {127257, 127251, 130306, 127250, 129026,
      129025, 129029, 128267, 128259, 128275,
      127245, 127237, 129284, 129540, 126992,
      127508, 127489, 130310, 130312, 130313}
   \<and> Decode NewDecoder 127257
       [sid, 0xFF, 0x7F, 0xFF, 0x7F, 0xFF, 0x7F]
     = Some (Some [''sid'' \<mapsto> U8 sid], None)
   \<and> Decode NewDecoder 127251
       [sid, 0xFF, 0x7F]
     = Some (Some [''sid'' \<mapsto> U8 sid], None)
   \<and> Decode NewDecoder 127251
       [sid, 0xFF, 0xFF, 0xFF, 0x7F, r5, r6, r7]
     = Some (Some [''sid'' \<mapsto> U8 sid], None)
   \<and> Decode NewDecoder 130306
       [sid, 0xFF, 0xFF, 0xFF, 0xFF, ref]
     = Some (Some [''sid'' \<mapsto> U8 sid, ''wind_reference'' \<mapsto> U8 ref], None)
   \<and> Decode NewDecoder 127250
       [sid, 0xFF, 0xFF, 0xFF, 0x7F, 0xFF, 0x7F, ref]
     = Some (Some [''sid'' \<mapsto> U8 sid, ''heading_reference'' \<mapsto> U8 ref], None)
   \<and> Decode NewDecoder 129026
       [sid, 0xFF, 0xFF, 0xFF, 0xFF, r5, r6, r7]
     = Some (Some [''sid'' \<mapsto> U8 sid], None)
   \<and> Decode NewDecoder 129025
       [0xFF, 0xFF, 0xFF, 0xFF, 0xFF, 0xFF, 0xFF, 0xFF]
     = Some (Some Map.empty, None)
   \<and> Decode NewDecoder 129029
       [sid, 0xFF, 0xFF, 0xFF, 0xFF, 0xFF, 0xFF,
         0xFF, 0xFF, 0xFF, 0xFF, 0xFF, 0xFF, 0xFF, 0x7F,
         0xFF, 0xFF, 0xFF, 0xFF, 0xFF, 0xFF, 0xFF, 0x7F,
         0xFF, 0xFF, 0xFF, 0xFF, 0xFF, 0xFF, 0xFF, 0x7F,
         pack1, pack2, svs, 0xFF, 0x7F, 0xFF, 0x7F, 0xFF, 0xFF, 0xFF, 0x7F, refStations]
     = Some (Some [''sid'' \<mapsto> U8 sid, ''gnss_type'' \<mapsto> U8 (pack1 AND 0x0F),
                ''method'' \<mapsto> U8 (drop_bit 4 pack1 AND 0x0F),
                ''integrity'' \<mapsto> U8 (pack2 AND 3), ''satellites'' \<mapsto> U8 svs,
                ''reference_stations'' \<mapsto> U8 refStations], None)
   \<and> Decode NewDecoder 128267
       [sid, 0xFF, 0xFF, 0xFF, 0xFF]
     = Some (Some [''sid'' \<mapsto> U8 sid], None)
   \<and> Decode NewDecoder 128259
       [sid, 0xFF, 0xFF, 0xFF, 0xFF, r5, r6]
     = Some (Some [''sid'' \<mapsto> U8 sid], None)
   \<and> Decode NewDecoder 128275
       [0xFF, 0xFF, 0xFF, 0xFF, 0xFF, 0xFF, 0xFF, 0xFF]
     = Some (Some Map.empty, None)
   \<and> Decode NewDecoder 127245
       [inst, dir, 0xFF, 0x7F, 0xFF, 0x7F]
     = Some (Some [''rudder_instance'' \<mapsto> U8 inst, ''direction_order'' \<mapsto> U8 dir], None)
   \<and> Decode NewDecoder 127237
       [b0, b1, b2, 0xFF, 0x7F, 0xFF, 0xFF, r7]
     = Some (Some [''rudder_limit_exceeded'' \<mapsto> U8 (drop_bit 6 b0 AND 3),
                ''off_heading_exceeded'' \<mapsto> U8 (drop_bit 4 b0 AND 3),
                ''off_track_exceeded'' \<mapsto> U8 (drop_bit 2 b0 AND 3),
                ''override'' \<mapsto> U8 (b0 AND 3),
                ''steering_mode'' \<mapsto> U8 (drop_bit 5 b1 AND 7),
                ''turn_mode'' \<mapsto> U8 (drop_bit 2 b1 AND 7),
                ''heading_reference'' \<mapsto> U8 ((b1 AND 3) OR push_bit 2 (drop_bit 7 b2 AND 1)),
                ''commanded_rudder_direction'' \<mapsto> U8 (b2 AND 7)], None)
   \<and> Decode NewDecoder 129284
       [sid, 0xFF, 0xFF, 0xFF, 0xFF, flags, r6, r7]
     = Some (Some [''sid'' \<mapsto> U8 sid,
                ''bearing_reference'' \<mapsto> U8 (drop_bit 6 flags AND 3),
                ''perpendicular_crossed'' \<mapsto> U8 (drop_bit 4 flags AND 3),
                ''arrival_circle_entered'' \<mapsto> U8 (drop_bit 2 flags AND 3),
                ''calculation_type'' \<mapsto> U8 (flags AND 3)], None)
   \<and> Decode NewDecoder 129540
       [sid, hdr, satsInView]
     = Some (Some [''sid'' \<mapsto> U8 sid, ''range_residual_mode'' \<mapsto> U8 (drop_bit 6 hdr AND 3),
                ''sats_in_view'' \<mapsto> U8 satsInView], None)
   \<and> Decode NewDecoder 126992
       [sid, src, 0xFF, 0xFF, 0xFF, 0xFF, 0xFF, 0xFF]
     = Some (Some [''sid'' \<mapsto> U8 sid, ''time_source'' \<mapsto> U8 src], None)
   \<and> Decode NewDecoder 127508
       [inst, 0xFF, 0xFF, 0xFF, 0x7F, 0xFF, 0xFF, sid]
     = Some (Some [''battery_instance'' \<mapsto> U8 inst, ''sid'' \<mapsto> U8 sid], None)
   \<and> Decode NewDecoder 127489
       [inst, 0xFF, 0xFF, 0xFF, 0xFF, 0xFF, 0xFF, r7]
     = Some (Some [''engine_instance'' \<mapsto> U8 inst], None)
   \<and> Decode NewDecoder 130310
       [sid, r1, r2, r3, 0xFF, 0xFF, 0xFF, 0xFF, 0xFF, 0xFF, 0xFF, 0xFF]
     = Some (Some [''sid'' \<mapsto> U8 sid], None)
   \<and> Decode NewDecoder 130312
       [sid, inst, src, 0xFF, 0xFF, r5]
     = Some (Some [''sid'' \<mapsto> U8 sid, ''temperature_instance'' \<mapsto> U8 inst, ''temperature_source'' \<mapsto> U8 src], None)
   \<and> Decode NewDecoder 130313
       [sid, inst, src, 0xFF, 0xFF, r5]
     = Some (Some [''sid'' \<mapsto> U8 sid, ''humidity_instance'' \<mapsto> U8 inst, ''humidity_source'' \<mapsto> U8 src], None)"
proof -
  have h: "Decode NewDecoder pgn payload =
             (case handlers NewDecoder pgn of Some handler \<Rightarrow> handler payload
              | None \<Rightarrow> Some (None, None))" for pgn payload
    by (simp add: Decode_def)
  have t: "dom (handlers NewDecoder) =
     {127257, 127251, 130306, 127250, 129026,
      129025, 129029, 128267, 128259, 128275,
      127245, 127237, 129284, 129540, 126992,
      127508, 127489, 130310, 130312, 130313}"
    unfolding NewDecoder_def registerDefaultHandlers_def by (simp add: insert_commute)
  show ?thesis
    unfolding h
    by (intro conjI, rule t)
      (simp_all add: NewDecoder_def registerDefaultHandlers_def
        decodePGN127257_sentinel decodePGN127251_sentinel decodePGN127251_sentinel_long
        decodePGN130306_sentinel decodePGN127250_sentinel decodePGN129026_sentinel
        decodePGN129025_sentinel decodePGN129029_sentinel decodePGN128267_sentinel
        decodePGN128259_sentinel decodePGN128275_sentinel decodePGN127245_sentinel
        decodePGN127237_sentinel decodePGN129284_sentinel decodePGN129540_sentinel
        decodePGN126992_sentinel decodePGN127508_sentinel decodePGN127489_sentinel
        decodePGN130310_sentinel decodePGN130312_sentinel decodePGN130313_sentinel)
qed

subsection \<open>Fusion mapper\<close>

lemma decodePGN129026_sogFrame: "decodePGN129026 sogFrameData = Some (Some sogFields, None)"
  by (simp add: decodePGN129026_def reader_defs sogFrameData_def sogFields_def ufloat_def)

lemma decodePGN128259_stwFrame: "decodePGN128259 stwFrameData = Some (Some stwFields, None)"
  by (simp add: decodePGN128259_def reader_defs stwFrameData_def stwFields_def ufloat_def)

lemma smod_small: "(1::int) smod 4 = 1" "(2::int) smod 4 = 2"
  by (simp_all add: smod_int_alt_def)

text \<open>
  Claim C5, at the input where the code departs from it. The buffer holds a PGN 128259
  message with \<open>water_speed_kts = 1.94384\<close> and, as latest PGN 129026 message, one with
  \<open>sog_kts = 0\<close> (both as the decoders produce them from the frames above).
  \<open>GetCurrentData\<close> falls back on the zero and reports the water speed as
  \<open>BoatSpeed\<close>; \<open>GetBoatSpeed\<close>, which \<open>CalculateApparentWind\<close> uses, returns the zero:
  it falls back only when the field is absent.
\<close>

theorem GetBoatSpeed_keeps_zero_sog:
  "decodePGN129026 sogFrameData = Some (Some sogFields, None)
   \<and> decodePGN128259 stwFrameData = Some (Some stwFields, None)
   \<and> (\<exists>rb0 rb. NewRingBuffer 4 = Some rb0
         \<and> Pushes rb0 [stwMessage, sogMessage] = Some rb
         \<and> GetBoatSpeed (NewBoomSenseMapper rb) = 0
         \<and> BoatSpeed (GetCurrentData (NewBoomSenseMapper rb)) = 1.94384)"
proof -
  define rb where "rb = \<lparr>data = [stwMessage, sogMessage, zeroMessage, zeroMessage],
      head = 2, size_rb = 2, capacity = 4,
      latestByPGN = [128259 \<mapsto> stwMessage, 129026 \<mapsto> sogMessage]\<rparr>"
  have new: "NewRingBuffer 4 = Some \<lparr>data = replicate 4 zeroMessage, head = 0, size_rb = 0,
                  capacity = 4, latestByPGN = Map.empty\<rparr>"
    by (simp add: NewRingBuffer_def)
  have pgn: "PGN stwMessage = 128259" "PGN sogMessage = 129026"
    by (simp_all add: stwMessage_def sogMessage_def)
  have push: "Pushes \<lparr>data = replicate 4 zeroMessage, head = 0, size_rb = 0,
                  capacity = 4, latestByPGN = Map.empty\<rparr> [stwMessage, sogMessage] = Some rb"
    by (simp add: Push_def go_rem_def len_def smod_small Let_def rb_def pgn numeral_eq_Suc)
  have f: "float_field sogMessage ''sog_kts'' = Some 0"
    "float_field stwMessage ''water_speed_kts'' = Some 1.94384"
    by (simp_all add: float_field_def sogMessage_def stwMessage_def sogFields_def stwFields_def)
  have g: "GetLatestByPGN 129026 rb = Some sogMessage"
    "GetLatestByPGN 128259 rb = Some stwMessage"
    "GetLatestByPGN 127257 rb = None" "GetLatestByPGN 127251 rb = None"
    "GetLatestByPGN 130306 rb = None"
    by (simp_all add: GetLatestByPGN_def rb_def)
  have bs: "GetBoatSpeed (NewBoomSenseMapper rb) = 0"
    by (simp add: GetBoatSpeed_def NewBoomSenseMapper_def g f)
  have cd: "BoatSpeed (GetCurrentData (NewBoomSenseMapper rb)) = 1.94384"
    by (simp add: GetCurrentData_def NewBoomSenseMapper_def g f Let_def)
  show ?thesis
    using decodePGN129026_sogFrame decodePGN128259_stwFrame new push bs cd by blast
qed

subsection \<open>Frames without a handler\<close>

lemma Pushes_inv_from:
  assumes "0 < C" "rb_inv C msgs rb"
  shows "\<exists>rb'. Pushes rb q = Some rb' \<and> rb_inv C (msgs @ q) rb'"
  using assms(2)
proof (induction q arbitrary: msgs rb)
  case Nil
  then show ?case by simp
next
  case (Cons x q)
  from Push_inv [OF assms(1) Cons.prems, of x] obtain rb1 where
    rb1: "Push x rb = Some rb1" "rb_inv C (msgs @ [x]) rb1" by blast
  from Cons.IH [OF rb1(2)] rb1(1) show ?case by simp
qed

lemma storage_copy:
  "\<lparr>DecodedMessage.Timestamp = DecodedMessage.Timestamp msg,
    PGN = DecodedMessage.PGN msg,
    PGNName = PGNName msg,
    Source = DecodedMessage.Source msg,
    Measurement = Measurement msg,
    Fields = Fields msg,
    Raw = Raw msg\<rparr> = msg"
  by simp

lemma storageWorker_steps_drain:
  assumes "Collector.buffer c = Some rb" "Pushes rb (decodedData c) = Some rb'"
  shows "\<exists>c'. storageWorker_steps (length (decodedData c)) c = Some c'
           \<and> Collector.buffer c' = Some rb' \<and> decodedData c' = []
           \<and> stats c' = stats c"
  using assms
proof (induction "decodedData c" arbitrary: c rb)
  case Nil
  then show ?case by simp
next
  case (Cons x q)
  from Cons.hyps(2) [symmetric] Cons.prems obtain rb1 where
    rb1: "Push x rb = Some rb1" "Pushes rb1 q = Some rb'"
    by (auto split: option.splits)
  define c1 where "c1 = c\<lparr>decodedData := q, buffer := Some rb1,
      csvWriter := map_option (\<lambda>rows. rows @ [x]) (csvWriter c)\<rparr>"
  have step: "storageWorker_step c = Some c1"
    using Cons.hyps(2) [symmetric] Cons.prems(1) rb1(1)
    by (simp add: storageWorker_step_def Let_def c1_def storage_copy)
  have "q = decodedData c1" "Collector.buffer c1 = Some rb1"
    "Pushes rb1 (decodedData c1) = Some rb'"
    using rb1 by (simp_all add: c1_def)
  from Cons.hyps(1) [OF this] obtain c' where
    "storageWorker_steps (length (decodedData c1)) c1 = Some c'"
    "Collector.buffer c' = Some rb'" "decodedData c' = []" "stats c' = stats c1" by blast
  then show ?case using step Cons.hyps(2) [symmetric] by (simp add: c1_def)
qed

text \<open>
  Claim C9. For a frame whose PGN has no registered handler, \<open>Decode\<close> returns no
  error and no fields (a \<open>nil\<close> map). The decoder worker still builds the
  \<open>DecodedMessage\<close> (with that \<open>nil\<close> map) and records it in the statistics as a decode
  failure, not a success; and the message is stored: with room in the \<open>decodedData\<close>
  queue and the collector not shut down, the worker queues it, and once the storage worker
  has drained the queue it is the newest message of the ring buffer and the latest of its
  PGN. The ring buffer is any buffer of positive capacity reached by earlier pushes.
\<close>

theorem decode_miss_pipeline:
  assumes nh: "handlers (decoder c) (RawFrame.PGN frame) = None"
    and room: "len (decodedData c) < QueueSize (config c)"
    and running: "\<not> doneClosed c"
    and buf: "Collector.buffer c = Some rb"
    and new: "NewRingBuffer C = Some rb0" and C: "0 < C"
    and stored: "Pushes rb0 earlier = Some rb"
  shows "Decode (decoder c) (RawFrame.PGN frame) (Data frame) = Some (None, None)
       \<and> (\<exists>c' c'' rb''.
             decodeWorker_frame pick_done now c frame = Some (c', True)
             \<and> decodedData c' = decodedData c @ [built frame]
             \<and> DecodeFailures (stats c') = DecodeFailures (stats c) + 1
             \<and> DecodeSuccesses (stats c') = DecodeSuccesses (stats c)
             \<and> MessagesProcessed (stats c') = MessagesProcessed (stats c) + 1
             \<and> storageWorker_steps (length (decodedData c')) c' = Some c''
             \<and> stats c'' = stats c'
             \<and> Collector.buffer c'' = Some rb''
             \<and> GetRecent 1 rb'' = Some [built frame]
             \<and> GetLatestByPGN (RawFrame.PGN frame) rb'' = Some (built frame))"
proof -
  let ?m = "built frame"
  have dec: "Decode (decoder c) (RawFrame.PGN frame) (Data frame) = Some (None, None)"
    using nh by (simp add: Decode_def)
  define c' where "c' = c\<lparr>stats := RecordMessage (stats c) now (RawFrame.PGN frame)
      (GetMeasurementType (RawFrame.PGN frame)) False, decodedData := decodedData c @ [?m]\<rparr>"
  have step: "decodeWorker_frame pick_done now c frame = Some (c', True)"
    using dec room running by (simp add: decodeWorker_frame_def Let_def c'_def built_def)
  have st: "DecodeFailures (stats c') = DecodeFailures (stats c) + 1"
    "DecodeSuccesses (stats c') = DecodeSuccesses (stats c)"
    "MessagesProcessed (stats c') = MessagesProcessed (stats c) + 1"
    by (simp_all add: c'_def RecordMessage_def Let_def)
  have q: "decodedData c' = decodedData c @ [?m]" "Collector.buffer c' = Some rb"
    using buf by (simp_all add: c'_def)
  from NewRingBuffer_inv [OF new] have "rb_inv C [] rb0" by simp
  from Pushes_inv [OF C this, of earlier] stored have inv: "rb_inv C earlier rb" by simp
  from Pushes_inv_from [OF C inv, of "decodedData c'"] obtain rb'' where
    rb'': "Pushes rb (decodedData c') = Some rb''" "rb_inv C (earlier @ decodedData c') rb''"
    by blast
  from storageWorker_steps_drain [OF q(2) rb''(1)] obtain c'' where
    c'': "storageWorker_steps (length (decodedData c')) c' = Some c''"
      "Collector.buffer c'' = Some rb''" "stats c'' = stats c'" by blast
  have sz: "0 < size_rb rb''" using rb''(2) C by (simp add: rb_inv_def q len_def)
  have rec: "GetRecent 1 rb'' = Some [?m]"
    using GetRecent_inv [OF C rb''(2), of 1] sz by (simp add: q min_def)
  have lat: "GetLatestByPGN (RawFrame.PGN frame) rb'' = Some ?m"
    using rb''(2) by (simp add: rb_inv_def GetLatestByPGN_def q built_def)
  show ?thesis using dec step st q(1) c'' rec lat by blast
qed

theorem decode_miss_pipeline_witness:
  "\<exists>rb0. NewRingBuffer 3 = Some rb0 \<and> Pushes rb0 [] = Some rb0
     \<and> handlers (decoder (idleCollector rb0)) (RawFrame.PGN missFrame) = None
     \<and> len (decodedData (idleCollector rb0)) < QueueSize (config (idleCollector rb0))
     \<and> \<not> doneClosed (idleCollector rb0)
     \<and> Decode NewDecoder 59904 [0x00, 0xEE, 0x00] = Some (None, None)
     \<and> (\<exists>c' c'' rb''.
           decodeWorker_frame False 5 (idleCollector rb0) missFrame = Some (c', True)
           \<and> decodedData c' = [built missFrame]
           \<and> DecodeFailures (stats c') = 1 \<and> DecodeSuccesses (stats c') = 0
           \<and> storageWorker_steps 1 c' = Some c''
           \<and> Collector.buffer c'' = Some rb''
           \<and> GetRecent 1 rb'' = Some [built missFrame])"
proof -
  obtain rb0 where new: "NewRingBuffer 3 = Some rb0" by (simp add: NewRingBuffer_def)
  have nh: "handlers (decoder (idleCollector rb0)) (RawFrame.PGN missFrame) = None"
    by (simp add: idleCollector_def missFrame_def NewDecoder_def registerDefaultHandlers_def)
  have room: "len (decodedData (idleCollector rb0)) < QueueSize (config (idleCollector rb0))"
    and running: "\<not> doneClosed (idleCollector rb0)"
    and buf: "Collector.buffer (idleCollector rb0) = Some rb0"
    by (simp_all add: idleCollector_def len_def)
  have p: "Pushes rb0 [] = Some rb0" by simp
  from decode_miss_pipeline [OF nh room running buf new _ p, of False 5]
  have "Decode (decoder (idleCollector rb0)) (RawFrame.PGN missFrame) (Data missFrame)
          = Some (None, None)
       \<and> (\<exists>c' c'' rb''.
             decodeWorker_frame False 5 (idleCollector rb0) missFrame = Some (c', True)
             \<and> decodedData c' = decodedData (idleCollector rb0) @ [built missFrame]
             \<and> DecodeFailures (stats c') = DecodeFailures (stats (idleCollector rb0)) + 1
             \<and> DecodeSuccesses (stats c') = DecodeSuccesses (stats (idleCollector rb0))
             \<and> MessagesProcessed (stats c') = MessagesProcessed (stats (idleCollector rb0)) + 1
             \<and> storageWorker_steps (length (decodedData c')) c' = Some c''
             \<and> stats c'' = stats c'
             \<and> Collector.buffer c'' = Some rb''
             \<and> GetRecent 1 rb'' = Some [built missFrame]
             \<and> GetLatestByPGN (RawFrame.PGN missFrame) rb'' = Some (built missFrame))"
    by simp
  then have "Decode NewDecoder 59904 [0x00, 0xEE, 0x00] = Some (None, None)
       \<and> (\<exists>c' c'' rb''.
           decodeWorker_frame False 5 (idleCollector rb0) missFrame = Some (c', True)
           \<and> decodedData c' = [built missFrame]
           \<and> DecodeFailures (stats c') = 1 \<and> DecodeSuccesses (stats c') = 0
           \<and> storageWorker_steps 1 c' = Some c''
           \<and> Collector.buffer c'' = Some rb''
           \<and> GetRecent 1 rb'' = Some [built missFrame])"
    by (auto simp: idleCollector_def missFrame_def NewStatistics_def)
  with new p nh room running show ?thesis by blast
qed

subsection \<open>Event detector: refractory period\<close>

lemma trunc_of_int: "trunc (real_of_int k) = k"
  by (simp add: trunc_def)

lemma eventTime_of_UnixNano: "eventTime (real_of_int tm / 1000000000) = tm"
  by (simp add: eventTime_def trunc_of_int)

lemma checkCrashGybe_time: "checkCrashGybe ed tNow = Some e \<Longrightarrow> Timestamp e = eventTime tNow"
  by (auto simp: checkCrashGybe_def split: prod.splits if_splits)

lemma checkNormalGybe_time: "checkNormalGybe ed tNow = Some e \<Longrightarrow> Timestamp e = eventTime tNow"
  by (auto simp: checkNormalGybe_def split: prod.splits if_splits)

lemma checkBoomHit_time: "checkBoomHit ed tNow = Some e \<Longrightarrow> Timestamp e = eventTime tNow"
  by (auto simp: checkBoomHit_def split: prod.splits if_splits)

lemma checkTack_time: "checkTack ed tNow = Some (Some e) \<Longrightarrow> Timestamp e = eventTime tNow"
  by (auto simp: checkTack_def Let_def split: prod.splits if_splits option.splits)

lemma maybeEmit_cases:
  assumes "maybeEmit ed tNow = Some (ed', out)"
  shows "EventDetector.config ed' = EventDetector.config ed
       \<and> EventDetector.buffer ed' = EventDetector.buffer ed
       \<and> (case out of
             None \<Rightarrow> lastEventTime ed' = lastEventTime ed
           | Some e \<Rightarrow> Timestamp e = eventTime tNow
                \<and> lastEventTime ed' = eventSeconds e
                \<and> \<not> tNow - lastEventTime ed < RefractoryPeriod (EventDetector.config ed))"
  using assms
  by (auto simp: maybeEmit_def publish_def eventSeconds_def
      dest: checkCrashGybe_time checkNormalGybe_time checkTack_time checkBoomHit_time
      split: if_splits option.splits)

lemma OnSample_cases:
  assumes "OnSample ed tm g bn rl = Some (ed', out)"
  shows "EventDetector.config ed' = EventDetector.config ed
       \<and> (case out of
             None \<Rightarrow> lastEventTime ed' = lastEventTime ed
           | Some e \<Rightarrow> Timestamp e = tm
                \<and> lastEventTime ed' = eventSeconds e
                \<and> eventSeconds e - lastEventTime ed \<ge> RefractoryPeriod (EventDetector.config ed))"
proof -
  from assms obtain ed0 where
    m: "maybeEmit ed0 (real_of_int tm / 10 ^ 9) = Some (ed', out)"
    and e0: "EventDetector.config ed0 = EventDetector.config ed" "lastEventTime ed0 = lastEventTime ed"
    by (auto simp: OnSample_def Let_def)
  from maybeEmit_cases [OF m] show ?thesis
    by (auto simp: e0 eventTime_of_UnixNano eventSeconds_def split: option.splits)
qed

lemma OnSamples_spaced:
  assumes "0 \<le> RefractoryPeriod (EventDetector.config ed)"
  shows "sorted_wrt (\<lambda>a b. eventSeconds b - eventSeconds a \<ge> RefractoryPeriod (EventDetector.config ed))
           (fst (OnSamples ed ins))
       \<and> (\<forall>e \<in> set (fst (OnSamples ed ins)).
             eventSeconds e - lastEventTime ed \<ge> RefractoryPeriod (EventDetector.config ed))"
  using assms
proof (induction ins arbitrary: ed)
  case Nil
  then show ?case by simp
next
  case (Cons x ins)
  obtain tm g bn rl where x: "x = (tm, g, bn, rl)" by (cases x) auto
  show ?case
  proof (cases "OnSample ed tm g bn rl")
    case None
    then show ?thesis by (simp add: x)
  next
    case (Some r)
    obtain ed' out where r: "r = (ed', out)" by (cases r) auto
    note st = OnSample_cases [OF Some [unfolded r]]
    have cfg: "EventDetector.config ed' = EventDetector.config ed" using st by simp
    have R: "0 \<le> RefractoryPeriod (EventDetector.config ed')" using Cons.prems cfg by simp
    note IH = Cons.IH [OF R, unfolded cfg]
    obtain evs fin where rest: "OnSamples ed' ins = (evs, fin)" by (cases "OnSamples ed' ins") auto
    show ?thesis
    proof (cases out)
      case None
      then show ?thesis using IH st by (simp add: x Some r rest)
    next
      case (Some e)
      have le: "lastEventTime ed' = eventSeconds e"
        "eventSeconds e - lastEventTime ed \<ge> RefractoryPeriod (EventDetector.config ed)"
        using st Some by simp_all
      have later: "\<forall>e' \<in> set evs. eventSeconds e' - eventSeconds e \<ge> RefractoryPeriod (EventDetector.config ed)"
        using IH le by (simp add: rest)
      have "\<forall>e' \<in> set evs. eventSeconds e' - lastEventTime ed \<ge> RefractoryPeriod (EventDetector.config ed)"
        using later le(2) Cons.prems by fastforce
      then show ?thesis using IH later le Some by (simp add: x \<open>OnSample ed tm g bn rl = Some r\<close> r rest)
    qed
  qed
qed

text \<open>
  Claim C6. For every sequence of \<open>OnSample\<close> calls, from any detector state, no two
  published events have timestamps closer than \<open>RefractoryPeriod\<close> seconds; and while
  the sample time minus the time of the last published event is below the refractory
  period, \<open>maybeEmit\<close> returns at once: none of the four checks runs, nothing is
  published and the state is unchanged. Sample times are \<open>UnixNano\<close> integers, so the
  conversions to seconds and back are exact in real arithmetic.
\<close>

theorem refractory_period:
  "sorted_wrt (\<lambda>a b. \<not> \<bar>eventSeconds b - eventSeconds a\<bar> < RefractoryPeriod (EventDetector.config ed))
     (fst (OnSamples ed ins))
   \<and> (tNow - lastEventTime ed < RefractoryPeriod (EventDetector.config ed)
        \<longrightarrow> maybeEmit ed tNow = Some (ed, None))"
proof -
  let ?R = "RefractoryPeriod (EventDetector.config ed)"
  have "sorted_wrt (\<lambda>a b. \<not> \<bar>eventSeconds b - eventSeconds a\<bar> < ?R) (fst (OnSamples ed ins))"
  proof (cases "0 \<le> ?R")
    case True
    from OnSamples_spaced [OF True, of ins]
    have "sorted_wrt (\<lambda>a b. eventSeconds b - eventSeconds a \<ge> ?R) (fst (OnSamples ed ins))"
      by simp
    then show ?thesis by (rule sorted_wrt_mono_rel [rotated]) auto
  next
    case False
    then have "\<And>a b. \<not> \<bar>eventSeconds b - eventSeconds a\<bar> < ?R" by auto
    then show ?thesis by (simp add: sorted_wrt_iff_nth_less)
  qed
  then show ?thesis by (simp add: maybeEmit_def)
qed

lemmas detector_defs =
  OnSample_def maybeEmit_def Let_def len_def checkCrashGybe_def checkNormalGybe_def
  checkTack_def checkBoomHit_def spanIn_def DefaultConfig_def publish_def eventTime_def
  trunc_def tackDirection_def calculateOvershoot_def sum_range.simps maxdev_range.simps
  elem_def

theorem refractory_period_witness:
  "NewEventDetector DefaultConfig = Some freshDetector
   \<and> map (\<lambda>e. (Type e, Timestamp e)) (fst (OnSamples freshDetector gybeRun))
       = [(''gybe_crash'', 100100000000), (''gybe_crash'', 103300000000)]
   \<and> sorted_wrt (\<lambda>a b. \<not> \<bar>eventSeconds b - eventSeconds a\<bar> < 3)
       (fst (OnSamples freshDetector gybeRun))
   \<and> 101 - lastEventTime (freshDetector\<lparr>lastEventTime := 100\<rparr>)
       < RefractoryPeriod (EventDetector.config (freshDetector\<lparr>lastEventTime := 100\<rparr>))
   \<and> maybeEmit (freshDetector\<lparr>lastEventTime := 100\<rparr>) 101
       = Some (freshDetector\<lparr>lastEventTime := 100\<rparr>, None)"
proof -
  have new: "NewEventDetector DefaultConfig = Some freshDetector"
    by (simp add: NewEventDetector_def freshDetector_def DefaultConfig_def)
  have run: "map (\<lambda>e. (Type e, Timestamp e)) (fst (OnSamples freshDetector gybeRun))
       = [(''gybe_crash'', 100100000000), (''gybe_crash'', 103300000000)]"
    by (simp add: freshDetector_def gybeRun_def detector_defs)
  have R: "RefractoryPeriod (EventDetector.config freshDetector) = 3"
    by (simp add: freshDetector_def DefaultConfig_def)
  have g: "101 - lastEventTime (freshDetector\<lparr>lastEventTime := 100\<rparr>)
       < RefractoryPeriod (EventDetector.config (freshDetector\<lparr>lastEventTime := 100\<rparr>))"
    by (simp add: R)
  from refractory_period [of freshDetector gybeRun]
  have s: "sorted_wrt (\<lambda>a b. \<not> \<bar>eventSeconds b - eventSeconds a\<bar> < 3)
       (fst (OnSamples freshDetector gybeRun))"
    by (simp add: R)
  from refractory_period [of "freshDetector\<lparr>lastEventTime := 100\<rparr>" "[]" 101] g
  have m: "maybeEmit (freshDetector\<lparr>lastEventTime := 100\<rparr>) 101
       = Some (freshDetector\<lparr>lastEventTime := 100\<rparr>, None)"
    by blast
  show ?thesis using new run s g m by blast
qed

subsection \<open>Event detector: tack overshoot\<close>

lemma sum_range_eq:
  assumes "0 \<le> i" "i \<le> hi" "hi \<le> len xs"
  shows "sum_range xs i hi acc = Some (acc + sum_list (take (nat (hi - i)) (drop (nat i) xs)))"
  using assms
proof (induction "nat (hi - i)" arbitrary: i acc)
  case 0
  then have "i = hi" by simp
  then show ?case by (subst sum_range.simps) simp
next
  case (Suc k)
  have lt: "i < hi" using Suc.hyps(2) by linarith
  have il: "nat i < length xs" using lt Suc.prems by (simp add: len_def)
  have el: "elem xs i = Some (xs ! nat i)" using il Suc.prems by (simp add: elem_def len_def)
  have IH: "sum_range xs (i + 1) hi (acc + xs ! nat i)
      = Some (acc + xs ! nat i + sum_list (take (nat (hi - (i + 1))) (drop (nat (i + 1)) xs)))"
    using Suc.hyps(1) [of "i + 1"] Suc.hyps(2) Suc.prems lt by simp
  have k: "nat (hi - i) = Suc (nat (hi - (i + 1)))" using lt by simp
  have d: "drop (nat i) xs = xs ! nat i # drop (nat (i + 1)) xs"
    using il Suc.prems by (simp add: Cons_nth_drop_Suc nat_add_distrib)
  show ?case
    by (subst sum_range.simps) (simp add: lt el IH k d del: drop_Suc_Cons)
qed

lemma maxdev_range_eq:
  assumes "0 \<le> i" "i \<le> hi" "hi \<le> len xs"
  shows "maxdev_range xs tg i hi m
           = Some (fold (\<lambda>x m. max \<bar>x - tg\<bar> m) (take (nat (hi - i)) (drop (nat i) xs)) m)"
  using assms
proof (induction "nat (hi - i)" arbitrary: i m)
  case 0
  then have "i = hi" by simp
  then show ?case by (subst maxdev_range.simps) simp
next
  case (Suc k)
  have lt: "i < hi" using Suc.hyps(2) by linarith
  have il: "nat i < length xs" using lt Suc.prems by (simp add: len_def)
  have el: "elem xs i = Some (xs ! nat i)" using il Suc.prems by (simp add: elem_def len_def)
  have IH: "maxdev_range xs tg (i + 1) hi (max \<bar>xs ! nat i - tg\<bar> m)
      = Some (fold (\<lambda>x m. max \<bar>x - tg\<bar> m) (take (nat (hi - (i + 1))) (drop (nat (i + 1)) xs))
               (max \<bar>xs ! nat i - tg\<bar> m))"
    using Suc.hyps(1) [of "i + 1"] Suc.hyps(2) Suc.prems lt by simp
  have k: "nat (hi - i) = Suc (nat (hi - (i + 1)))" using lt by simp
  have d: "drop (nat i) xs = xs ! nat i # drop (nat (i + 1)) xs"
    using il Suc.prems by (simp add: Cons_nth_drop_Suc nat_add_distrib)
  have mx: "(if \<bar>xs ! nat i - tg\<bar> > m then \<bar>xs ! nat i - tg\<bar> else m) = max \<bar>xs ! nat i - tg\<bar> m"
    by (simp add: max_def)
  show ?case
    by (subst maxdev_range.simps) (simp add: lt el IH k d Let_def mx del: drop_Suc_Cons)
qed

lemma trunc_quarter: "0 \<le> n \<Longrightarrow> trunc (max 2 (real_of_int n / 4)) = max 2 (n div 4)"
proof -
  assume "0 \<le> n"
  have "\<lfloor>real_of_int n / 4\<rfloor> = n div 4"
    using floor_divide_of_int_eq [of n 4] by simp
  then show ?thesis by (auto simp: trunc_def max_def)
qed

lemma trunc_third: "0 \<le> n \<Longrightarrow> trunc (max 5 (real_of_int n / 3)) = max 5 (n div 3)"
proof -
  assume "0 \<le> n"
  have "\<lfloor>real_of_int n / 3\<rfloor> = n div 3"
    using floor_divide_of_int_eq [of n 3] by simp
  then show ?thesis by (auto simp: trunc_def max_def)
qed


lemma calculateOvershoot_short: "length bn < 4 \<Longrightarrow> calculateOvershoot bn = Some 0"
  by (simp add: calculateOvershoot_def len_def)

lemma calculateOvershoot_four: "length bn = 4 \<Longrightarrow> calculateOvershoot bn = None"
proof -
  assume n: "length bn = 4"
  have q: "trunc (max 2 (real_of_int (len bn) / 4)) = 2"
    and th: "trunc (max 5 (real_of_int (len bn) / 3)) = 5"
    using n by (simp_all add: len_def trunc_def)
  have s1: "sum_range bn 0 2 0 = Some (sum_list (take 2 bn))"
    using sum_range_eq [of 0 2 bn 0] n by (simp add: len_def)
  have s2: "sum_range bn 2 4 0 = Some (sum_list (take 2 (drop 2 bn)))"
    using sum_range_eq [of 2 4 bn 0] n by (simp add: len_def)
  have m: "maxdev_range bn tg (- 1) 4 0 = None" for tg
    by (subst maxdev_range.simps) (simp add: elem_def)
  show ?thesis
    using n by (simp add: calculateOvershoot_def len_def trunc_def s1 s2 m)
qed

lemma calculateOvershoot_long:
  assumes "5 \<le> length bn"
  shows "calculateOvershoot bn =
           Some (overshoot_with (max 2 (length bn div 4)) (max 5 (length bn div 3)) bn)"
proof -
  let ?n = "len bn"
  define kq where "kq = max 2 (length bn div 4)"
  define kt where "kt = max 5 (length bn div 3)"
  have n: "5 \<le> ?n" using assms by (simp add: len_def)
  have q: "trunc (max 2 (real_of_int ?n / 4)) = int kq"
    using trunc_quarter [of ?n] n by (simp add: kq_def len_def zdiv_int)
  have th: "trunc (max 5 (real_of_int ?n / 3)) = int kt"
    using trunc_third [of ?n] n by (simp add: kt_def len_def zdiv_int)
  have kql: "kq \<le> length bn" "0 < kq" and ktl: "kt \<le> length bn"
    using assms by (auto simp: kq_def kt_def)
  have s1: "sum_range bn 0 (int kq) 0 = Some (sum_list (take kq bn))"
    using sum_range_eq [of 0 "int kq" bn 0] kql by (simp add: len_def)
  have s2: "sum_range bn (?n - int kq) ?n 0 = Some (sum_list (lastn kq bn))"
    using sum_range_eq [of "?n - int kq" ?n bn 0] kql
    by (simp add: len_def lastn_def nat_diff_distrib)
  have m: "maxdev_range bn tg (?n - int kt) ?n 0 = Some (max_dev tg (lastn kt bn))" for tg
    using maxdev_range_eq [of "?n - int kt" ?n bn tg 0] ktl
    by (simp add: len_def lastn_def max_dev_def nat_diff_distrib)
  have lk: "length (lastn kq bn) = kq" using kql by (simp add: lastn_def)
  have "\<not> ?n < 4" using n by simp
  then show ?thesis
    by (simp add: calculateOvershoot_def q th s1 s2 m overshoot_with_def mean_def lk
        flip: kq_def kt_def)
qed

lemma max_dev_is_Max:
  assumes "xs \<noteq> []"
  shows "max_dev tg xs = Max ((\<lambda>x. \<bar>x - tg\<bar>) ` set xs)"
proof -
  let ?f = "\<lambda>x. \<bar>x - tg\<bar>"
  have "max_dev tg xs = fold max (map ?f xs) 0"
    by (simp add: max_dev_def fold_map comp_def)
  also have "\<dots> = Max (set (0 # map ?f xs))"
    by (simp only: Max.set_eq_fold)
  also have "\<dots> = max 0 (Max (?f ` set xs))"
    using assms by simp
  also have "\<dots> = Max (?f ` set xs)"
  proof -
    obtain y where "y \<in> set xs" using assms by (cases xs) auto
    then have "?f y \<le> Max (?f ` set xs)" by simp
    moreover have "0 \<le> ?f y" by simp
    ultimately show ?thesis by linarith
  qed
  finally show ?thesis .
qed

text \<open>A slow tack seen in four samples: the tack rule fires at the fourth, and
  \<open>calculateOvershoot\<close> indexes the series at \<open>4 - 5\<close>: the call panics.\<close>

lemma short_tack_run_panics:
  "OnSamples freshDetector shortTackRun = ([], None)
   \<and> calculateOvershoot [0.6, 0.2, - 0.2, - 0.6] = None"
  by (simp add: freshDetector_def shortTackRun_def detector_defs
      calculateOvershoot_four [unfolded calculateOvershoot_def])

text \<open>
  Claim C7, as stated, fails: the twelve samples of \<open>tackRun\<close> make the detector
  publish one tack whose valid boom series is \<open>tackSeries\<close>. The mean of its last quarter
  (3 values) is \<open>-0.5\<close> and no value of its last third (4 values) deviates from it, so
  the stated overshoot is \<open>max(0, 0 - 0.05) = 0\<close>; the event reports \<open>0.95\<close>, because
  the code takes the deviation over the last five values.
\<close>

theorem tack_overshoot_counterexample:
  "NewEventDetector DefaultConfig = Some freshDetector
   \<and> valid_values (map (\<lambda>(tm, g, bn, rl). bn) tackRun) = tackSeries
   \<and> map (\<lambda>e. (Type e, Timestamp e, Direction e, Overshoot e))
         (fst (OnSamples freshDetector tackRun))
       = [(''tack'', 102750000000, ''stb_to_port'', 0.95)]
   \<and> overshoot_spec tackSeries = 0"
proof -
  have new: "NewEventDetector DefaultConfig = Some freshDetector"
    by (simp add: NewEventDetector_def freshDetector_def DefaultConfig_def)
  have ser: "valid_values (map (\<lambda>(tm, g, bn, rl). bn) tackRun) = tackSeries"
    by (simp add: tackRun_def tackSeries_def)
  have run: "map (\<lambda>e. (Type e, Timestamp e, Direction e, Overshoot e))
         (fst (OnSamples freshDetector tackRun))
       = [(''tack'', 102750000000, ''stb_to_port'', 0.95)]"
    by (simp add: freshDetector_def tackRun_def detector_defs)
  have spec: "overshoot_spec tackSeries = 0"
    by (simp add: overshoot_spec_def overshoot_with_def tackSeries_def lastn_def mean_def
        max_dev_def)
  show ?thesis using new ser run spec by blast
qed

text \<open>
  Claim C7, amended. When the tack rule fires on a window whose valid boom series
  \<open>bnSeries\<close> has \<open>n \<noteq> 4\<close> values, \<open>checkTack\<close> returns a tack event, and its
  overshoot is 0 for \<open>n < 4\<close> and otherwise \<open>max(0, m - 0.05)\<close>, where the target is the
  mean of the last \<open>max(2, n div 4)\<close> values and \<open>m\<close> the largest \<open>|bn - target|\<close> over
  the last \<open>max(5, n div 3)\<close> values; every index of the computation is in range.
\<close>

theorem tack_overshoot_windows:
  assumes span: "spanIn ed tNow (TackDTMax (EventDetector.config ed))
                   = (dt, gyPeak, boomDelta, rollDrop, bnSeries, rlSeries)"
    and fires: "gyPeak \<ge> TackGyMin (EventDetector.config ed)
                \<and> gyPeak \<le> TackGyMax (EventDetector.config ed)
                \<and> boomDelta \<ge> TackBoomStep (EventDetector.config ed)
                \<and> rollDrop \<ge> TackMinRollDelta (EventDetector.config ed)"
    and n4: "length bnSeries \<noteq> 4"
  shows "\<exists>e. checkTack ed tNow = Some (Some e) \<and> Type e = ''tack''
           \<and> Overshoot e =
               (if length bnSeries < 4 then 0
                else overshoot_with (max 2 (length bnSeries div 4))
                       (max 5 (length bnSeries div 3)) bnSeries)"
proof (cases "length bnSeries < 4")
  case True
  then show ?thesis
    using span fires by (simp add: checkTack_def Let_def calculateOvershoot_short)
next
  case False
  with n4 have "5 \<le> length bnSeries" by simp
  from calculateOvershoot_long [OF this] show ?thesis
    using span fires False by (simp add: checkTack_def Let_def)
qed

theorem tack_overshoot_windows_witness:
  "spanIn tackState 102.75 (TackDTMax (EventDetector.config tackState))
     = (2.75, 16, 1.1, 15, tackSeries, tackRolls)
   \<and> 16 \<ge> TackGyMin (EventDetector.config tackState)
   \<and> 16 \<le> TackGyMax (EventDetector.config tackState)
   \<and> 1.1 \<ge> TackBoomStep (EventDetector.config tackState)
   \<and> 15 \<ge> TackMinRollDelta (EventDetector.config tackState)
   \<and> length tackSeries \<noteq> 4
   \<and> (\<exists>e. checkTack tackState 102.75 = Some (Some e) \<and> Type e = ''tack''
          \<and> Overshoot e = 0.95)"
proof -
  have cfg: "EventDetector.config tackState = DefaultConfig"
    by (simp add: tackState_def freshDetector_def)
  have span: "spanIn tackState 102.75 (TackDTMax (EventDetector.config tackState))
     = (2.75, 16, 1.1, 15, tackSeries, tackRolls)"
    by (simp add: tackState_def freshDetector_def tackRun_def tackSeries_def tackRolls_def
        spanIn_def DefaultConfig_def Let_def)
  have fires: "16 \<ge> TackGyMin (EventDetector.config tackState)
     \<and> 16 \<le> TackGyMax (EventDetector.config tackState)
     \<and> 1.1 \<ge> TackBoomStep (EventDetector.config tackState)
     \<and> 15 \<ge> TackMinRollDelta (EventDetector.config tackState)"
    by (simp add: cfg DefaultConfig_def)
  have n4: "length tackSeries \<noteq> 4" by (simp add: tackSeries_def)
  have ov: "overshoot_with (max 2 (length tackSeries div 4)) (max 5 (length tackSeries div 3))
      tackSeries = 0.95"
    by (simp add: overshoot_with_def tackSeries_def lastn_def mean_def max_dev_def)
  have l: "\<not> length tackSeries < 4" by (simp add: tackSeries_def)
  from tack_overshoot_windows [OF span fires n4] obtain e where
    e: "checkTack tackState 102.75 = Some (Some e)" "Type e = ''tack''"
      "Overshoot e =
         (if length tackSeries < 4 then 0
          else overshoot_with (max 2 (length tackSeries div 4))
                 (max 5 (length tackSeries div 3)) tackSeries)"
    by blast
  have "Overshoot e = 0.95" by (simp only: e(3) l if_False ov)
  with e span fires n4 show ?thesis by blast
qed

subsection \<open>Bayesian model: positive variance\<close>

lemma sigmoid_range: "0 < sigmoid z \<and> sigmoid z < 1"
proof -
  have "0 < exp (- max (- 60) (min 60 z))" by simp
  then show ?thesis by (simp add: sigmoid_def Let_def add_pos_pos)
qed

lemma forward_loop_total:
  assumes "well_formed bq" "len x = d bq" "0 \<le> i"
  shows "\<exists>z'. forward_loop bq x i z = Some z'"
  using assms(3)
proof (induction "nat (d bq - i)" arbitrary: i z)
  case 0
  then show ?case by (subst forward_loop.simps) simp
next
  case (Suc k)
  have lt: "i < d bq" using Suc.hyps(2) by linarith
  have em: "elem (mu bq) i = Some (mu bq ! nat i)" and ex: "elem x i = Some (x ! nat i)"
    using assms lt Suc.prems by (simp_all add: elem_def well_formed_def)
  from Suc.hyps(1) [of "i + 1"] Suc.hyps(2) Suc.prems
  obtain z' where "forward_loop bq x (i + 1) (z + mu bq ! nat i * x ! nat i) = Some z'"
    by force
  then show ?case by (subst forward_loop.simps) (simp add: lt em ex)
qed

lemma update_component_ok:
  assumes wf: "well_formed bq" and pos: "positive_variance bq" and x: "len x = d bq"
    and i: "0 \<le> i" "i < d bq" and p: "0 < p" "p < 1"
  shows "\<exists>m' v'. update_component bq x y p i = Some (m', v') \<and> 0 < v'"
proof -
  have il: "nat i < length (vr bq)" "nat i < length (mu bq)" "nat i < length x"
    using wf x i by (auto simp: well_formed_def len_def)
  have ex: "elem x i = Some (x ! nat i)" and ev: "elem (vr bq) i = Some (vr bq ! nat i)"
    and em: "elem (mu bq) i = Some (mu bq ! nat i)"
    using il i by (simp_all add: elem_def len_def)
  have v: "0 < vr bq ! nat i"
    using pos il(1) by (simp add: positive_variance_def list_all_length)
  define h where "h = p * (1 - p) * x ! nat i * x ! nat i + 1 / vr bq ! nat i"
  have "0 \<le> p * (1 - p) * (x ! nat i * x ! nat i)" using p by simp
  then have h: "0 < h" using v by (simp add: h_def add_nonneg_pos mult.assoc)
  have "update_component bq x y p i
      = Some (mu bq ! nat i + (y - p) * x ! nat i / h, 1 / h)"
    using v h by (simp add: update_component_def ex ev em fdiv_def Let_def h_def)
  then show ?thesis using h by simp
qed

lemma update_loop_ok:
  assumes "well_formed bq" "positive_variance bq" "len x = d bq" "0 \<le> i" "0 < p" "p < 1"
  shows "\<exists>bq'. update_loop bq x y p i = Some bq' \<and> well_formed bq'
           \<and> positive_variance bq' \<and> d bq' = d bq"
  using assms(1-4)
proof (induction "nat (d bq - i)" arbitrary: i bq)
  case 0
  then show ?case by (subst update_loop.simps) simp
next
  case (Suc k)
  have lt: "i < d bq" using Suc.hyps(2) by linarith
  from update_component_ok [OF Suc.prems(1-3) Suc.prems(4) lt assms(5,6), of y]
  obtain m' v' where c: "update_component bq x y p i = Some (m', v')" "0 < v'" by blast
  define bq1 where "bq1 = bq\<lparr>mu := (mu bq)[nat i := m'], vr := (vr bq)[nat i := v']\<rparr>"
  have wf1: "well_formed bq1" using Suc.prems(1) by (simp add: bq1_def well_formed_def len_def)
  have pos1: "positive_variance bq1"
    using Suc.prems(2) c(2)
    by (auto simp: bq1_def positive_variance_def list_all_iff dest: set_update_subset_insert [THEN subsetD])
  have d1: "d bq1 = d bq" by (simp add: bq1_def)
  have "k = nat (d bq1 - (i + 1))" using Suc.hyps(2) d1 by simp
  from Suc.hyps(1) [OF this wf1 pos1] Suc.prems d1
  obtain bq' where "update_loop bq1 x y p (i + 1) = Some bq'" "well_formed bq'"
    "positive_variance bq'" "d bq' = d bq1" by auto
  then show ?case by (subst update_loop.simps) (simp add: lt c(1) d1 flip: bq1_def)
qed

lemma iterations_ok:
  assumes "well_formed bq" "positive_variance bq" "len x = d bq"
  shows "\<exists>bq'. iterations bq x y iters iter = Some bq' \<and> well_formed bq'
           \<and> positive_variance bq' \<and> d bq' = d bq"
  using assms
proof (induction "nat (iters - iter)" arbitrary: iter bq)
  case 0
  then show ?case by (subst iterations.simps) simp
next
  case (Suc k)
  have lt: "iter < iters" using Suc.hyps(2) by linarith
  from forward_loop_total [OF Suc.prems(1) Suc.prems(3), of 0 0] obtain z where
    z: "forward_loop bq x 0 0 = Some z" by auto
  from update_loop_ok [OF Suc.prems(1-3), of 0 "sigmoid z" y] sigmoid_range [of z]
  obtain bq1 where b: "update_loop bq x y (sigmoid z) 0 = Some bq1" "well_formed bq1"
    "positive_variance bq1" "d bq1 = d bq" by auto
  have "k = nat (iters - (iter + 1))" using Suc.hyps(2) by simp
  from Suc.hyps(1) [OF this b(2,3)] Suc.prems(3) b(4)
  obtain bq' where "iterations bq1 x y iters (iter + 1) = Some bq'" "well_formed bq'"
    "positive_variance bq'" "d bq' = d bq1" by auto
  then show ?case by (subst iterations.simps) (simp add: lt z b)
qed

lemma Update_ok:
  assumes "well_formed bq" "positive_variance bq"
  shows "\<exists>bq'. Update bq x y iters = Some bq' \<and> well_formed bq'
           \<and> positive_variance bq' \<and> d bq' = d bq"
  using assms iterations_ok [OF assms, of x y iters 0] by (auto simp: Update_def)

lemma Updates_ok:
  assumes "well_formed bq" "positive_variance bq"
  shows "\<exists>bq'. Updates bq calls = Some bq' \<and> well_formed bq'
           \<and> positive_variance bq' \<and> d bq' = d bq"
  using assms
proof (induction calls arbitrary: bq)
  case Nil
  then show ?case by simp
next
  case (Cons c calls)
  obtain x y iters where c: "c = (x, y, iters)" by (cases c) auto
  from Update_ok [OF Cons.prems, of x y iters] obtain bq1 where
    b: "Update bq x y iters = Some bq1" "well_formed bq1" "positive_variance bq1"
      "d bq1 = d bq" by blast
  from Cons.IH [OF b(2,3)] b(1,4) show ?case by (auto simp: c)
qed

text \<open>
  Claim C8, amended. For \<open>sigma0 \<noteq> 0\<close> (and a dimension \<open>n \<ge> 0\<close>, which
  \<open>make\<close> requires), \<open>NewBayesianQA\<close> returns a state whose variances are all
  \<open>sigma0\<^sup>2 > 0\<close>, and after every sequence of \<open>Update\<close> calls, with feature vectors
  of any length, every variance is still strictly positive; and from any state with
  vectors of length \<open>d\<close> and strictly positive variances, every \<open>Update\<close> call
  returns such a state: no index is out of range and no division is by zero, since
  \<open>h = p (1 - p) x\<^sub>i\<^sup>2 + 1 / v\<^sub>i > 0\<close>.
\<close>

theorem variance_stays_positive:
  "(sigma0 \<noteq> 0 \<and> 0 \<le> n \<longrightarrow>
      (\<exists>bq. NewBayesianQA n sigma0 = Some bq \<and> well_formed bq \<and> d bq = n
         \<and> vr bq = replicate (nat n) (sigma0 * sigma0) \<and> positive_variance bq
         \<and> (\<exists>bq'. Updates bq calls = Some bq' \<and> well_formed bq' \<and> d bq' = n
               \<and> positive_variance bq')))
   \<and> (well_formed bq0 \<and> positive_variance bq0 \<longrightarrow>
        (\<exists>bq'. Update bq0 x y iters = Some bq' \<and> well_formed bq' \<and> d bq' = d bq0
           \<and> positive_variance bq'))"
proof (intro conjI impI)
  assume a: "sigma0 \<noteq> 0 \<and> 0 \<le> n"
  define bq where "bq = \<lparr>d = n, mu = replicate (nat n) 0,
                  vr = replicate (nat n) (sigma0 * sigma0)\<rparr>"
  have new: "NewBayesianQA n sigma0 = Some bq" using a by (simp add: NewBayesianQA_def bq_def)
  have wf: "well_formed bq" using a by (simp add: well_formed_def bq_def len_def)
  have pos: "positive_variance bq"
  proof -
    have "0 < sigma0 * sigma0" using a by (auto simp: zero_less_mult_iff)
    then show ?thesis by (simp add: positive_variance_def bq_def list_all_iff)
  qed
  from Updates_ok [OF wf pos, of calls] obtain bq' where
    "Updates bq calls = Some bq'" "well_formed bq'" "positive_variance bq'" "d bq' = d bq"
    by blast
  then show "\<exists>bq. NewBayesianQA n sigma0 = Some bq \<and> well_formed bq \<and> d bq = n
         \<and> vr bq = replicate (nat n) (sigma0 * sigma0) \<and> positive_variance bq
         \<and> (\<exists>bq'. Updates bq calls = Some bq' \<and> well_formed bq' \<and> d bq' = n
               \<and> positive_variance bq')"
    using new wf pos by (auto simp: bq_def)
next
  assume "well_formed bq0 \<and> positive_variance bq0"
  then show "\<exists>bq'. Update bq0 x y iters = Some bq' \<and> well_formed bq' \<and> d bq' = d bq0
           \<and> positive_variance bq'"
    using Update_ok [of bq0 x y iters] by blast
qed

theorem variance_stays_positive_witness:
  "(10 :: real) \<noteq> 0 \<and> (0 :: int) \<le> 2
   \<and> NewBayesianQA 2 10 = Some priorQA
   \<and> well_formed priorQA \<and> positive_variance priorQA
   \<and> (\<exists>bq'. Updates priorQA [([1, 0.5], 1, 3), ([0.2, 1], 0, 1)] = Some bq'
          \<and> positive_variance bq')
   \<and> (\<exists>bq'. Update priorQA [1, 0.5] 1 3 = Some bq' \<and> positive_variance bq')"
proof -
  have new: "NewBayesianQA 2 10 = Some priorQA"
    by (simp add: NewBayesianQA_def priorQA_def numeral_eq_Suc)
  have wf: "well_formed priorQA" and pos: "positive_variance priorQA"
    by (simp_all add: well_formed_def positive_variance_def priorQA_def len_def)
  note inst = variance_stays_positive
    [of 10 2 "[([1, 0.5], 1, 3), ([0.2, 1], 0, 1)]" priorQA "[1, 0.5]" 1 3]
  from inst new have "\<exists>bq'. Updates priorQA [([1, 0.5], 1, 3), ([0.2, 1], 0, 1)] = Some bq'
          \<and> positive_variance bq'"
    by auto
  moreover from inst wf pos have "\<exists>bq'. Update priorQA [1, 0.5] 1 3 = Some bq'
          \<and> positive_variance bq'"
    by auto
  ultimately show ?thesis using new wf pos by simp
qed

text \<open>
  Claim C8, as stated, fails at \<open>sigma0 = 0\<close>: the variance of the constructed state
  is \<open>0\<close>, not strictly positive.
\<close>

theorem variance_zero_sigma_counterexample:
  "\<exists>bq. NewBayesianQA 1 0 = Some bq \<and> vr bq = [0] \<and> \<not> positive_variance bq"
  by (simp add: NewBayesianQA_def positive_variance_def)

end
